theory Spec2Isabelle
  imports Main "HOL-Library.Finite_Map"
begin

section \<open>Time\<close>

text \<open>
  A Go \<^verbatim>\<open>time.Time\<close> is modelled as the number of nanoseconds since the Unix epoch,
  a \<^verbatim>\<open>time.Duration\<close> as a number of nanoseconds. Both are unbounded integers here:
  the instants and durations of the program are some decades wide and stay far from the
  bounds of the 64-bit fields that carry them.
\<close>

type_synonym time = int
type_synonym duration = int

definition second :: duration where
  "second = 1000000000"

definition minute :: duration where
  "minute = 60 * second"

definition hour :: duration where
  "hour = 60 * minute"

text \<open>The zero value of \<^verbatim>\<open>time.Time\<close>: January 1 of year 1, 00:00:00 UTC.\<close>

definition zero_time :: time where
  "zero_time = - 62135596800 * second"

text \<open>\<^verbatim>\<open>t.Unix()\<close>: whole seconds since the epoch, rounded down.\<close>

definition Unix :: "time \<Rightarrow> int" where
  "Unix t = t div second"

section \<open>Strings\<close>

text \<open>
  \<^verbatim>\<open>strings.SplitN(s, sep, 2)\<close> for a separator of one byte: the text before the first
  separator and the text after it, or the string alone when it holds no separator.
\<close>

fun split_first :: "char \<Rightarrow> string \<Rightarrow> (string \<times> string) option" where
  "split_first c [] = None"
| "split_first c (x # xs) =
     (if x = c then Some ([], xs)
      else (case split_first c xs of
              None \<Rightarrow> None
            | Some (a, b) \<Rightarrow> Some (x # a, b)))"

definition SplitN2 :: "string \<Rightarrow> char \<Rightarrow> string list" where
  "SplitN2 s c = (case split_first c s of None \<Rightarrow> [s] | Some (a, b) \<Rightarrow> [a, b])"

text \<open>\<^verbatim>\<open>strings.HasPrefix\<close>.\<close>

definition HasPrefix :: "string \<Rightarrow> string \<Rightarrow> bool" where
  "HasPrefix s pre = (take (length pre) s = pre)"

section \<open>The delegated validator and its cache (htpasswd\_proxy.go)\<close>

text \<open>
  \<^verbatim>\<open>h.cache.m\<close> is a Go map from the key \<^verbatim>\<open>user+":"+password\<close> to the instant of the
  last successful validation. A Go map is either nil (\<open>None\<close>) or a finite map. The
  mutex of the cache is held for the whole of \<^verbatim>\<open>cachedValidate\<close> and for the whole of
  \<^verbatim>\<open>putValidateCache\<close>, and for nothing else: each of the two is one step on the
  shared proxy.
\<close>

record HtpasswdProxy =
  url :: string
  cache_m :: "(string, time) fmap option"

datatype panic = NilPointerDereference | NilMapAssignment

text \<open>
  What \<^verbatim>\<open>http.DefaultClient.Do(req)\<close> hands back: the response (here its status code;
  \<open>None\<close> is the nil pointer) and the error (\<open>None\<close> is nil). On a failure to speak to
  the server the response is nil and the error is not.
\<close>

type_synonym do_result = "nat option \<times> string option"

text \<open>The HTTP client, as a function of the URL and the Basic credentials of the request.\<close>

type_synonym http_client = "string \<Rightarrow> string \<Rightarrow> string \<Rightarrow> do_result"

datatype hp_event =
    Probe string string string
  | LogInvalidResponse string string string

definition StatusOK :: nat where
  "StatusOK = 200"

definition StatusUnauthorized :: nat where
  "StatusUnauthorized = 401"

definition cache_key :: "string \<Rightarrow> string \<Rightarrow> string" where
  "cache_key user password = user @ '':'' @ password"

text \<open>\<^verbatim>\<open>len(h.cache.m)\<close>.\<close>

definition len :: "(string, time) fmap \<Rightarrow> nat" where
  "len m = fcard (fmdom m)"

text \<open>
  \<^verbatim>\<open>NewHtpasswdProxy\<close>; \<open>parse\<close> stands for \<^verbatim>\<open>url.Parse\<close> and returns the error, if any.
\<close>

definition NewHtpasswdProxy :: "(string \<Rightarrow> string option) \<Rightarrow> string \<Rightarrow> string + HtpasswdProxy" where
  "NewHtpasswdProxy parse urlStr =
     (case parse urlStr of
        Some err \<Rightarrow> Inl err
      | None \<Rightarrow> Inr \<lparr>url = urlStr, cache_m = None\<rparr>)"

text \<open>
  \<^verbatim>\<open>cachedValidate\<close>: \<open>now\<close> is the reading of \<^verbatim>\<open>time.Now()\<close> in its last line. A key
  that is not in the map reads as the zero time.
\<close>

definition cachedValidate :: "HtpasswdProxy \<Rightarrow> string \<Rightarrow> string \<Rightarrow> time \<Rightarrow> bool \<times> HtpasswdProxy" where
  "cachedValidate h user password now =
     (let m = (case cache_m h of
                 None \<Rightarrow> fmempty
               | Some m0 \<Rightarrow> if len m0 > 100 then fmempty else m0);
          t = (case fmlookup m (cache_key user password) of
                 None \<Rightarrow> zero_time
               | Some t0 \<Rightarrow> t0)
      in (t + minute > now, h\<lparr>cache_m := Some m\<rparr>))"

text \<open>\<^verbatim>\<open>putValidateCache\<close>: an assignment to an entry of a nil map panics.\<close>

definition putValidateCache :: "HtpasswdProxy \<Rightarrow> string \<Rightarrow> string \<Rightarrow> time \<Rightarrow> panic + HtpasswdProxy" where
  "putValidateCache h user password now =
     (case cache_m h of
        None \<Rightarrow> Inl NilMapAssignment
      | Some m \<Rightarrow> Inr (h\<lparr>cache_m := Some (fmupd (cache_key user password) now m)\<rparr>))"

text \<open>
  \<^verbatim>\<open>Validate\<close>, line by line. The result is the returned boolean or the panic that ends
  the call, the proxy as the call leaves it, and what the call did (probes and log lines,
  in order). \<open>now_lookup\<close> and \<open>now_put\<close> are the two readings of the clock.
  The URL of the proxy is one that \<^verbatim>\<open>url.Parse\<close> accepts, as \<^verbatim>\<open>NewHtpasswdProxy\<close>
  has checked, so \<^verbatim>\<open>http.NewRequest\<close> returns a request.
\<close>

definition Validate ::
  "http_client \<Rightarrow> HtpasswdProxy \<Rightarrow> string \<Rightarrow> string \<Rightarrow> time \<Rightarrow> time
     \<Rightarrow> (panic + bool) \<times> HtpasswdProxy \<times> hp_event list" where
  "Validate client h user password now_lookup now_put =
     (let (hit, h1) = cachedValidate h user password now_lookup in
      if hit then (Inr True, h1, [])
      else
        (let (res, err) = client (url h1) user password;
             evs = Probe (url h1) user password #
                   (case err of
                      None \<Rightarrow> []
                    | Some e \<Rightarrow> [LogInvalidResponse (url h1) user e])
         in case res of
              None \<Rightarrow> (Inl NilPointerDereference, h1, evs)
            | Some status \<Rightarrow>
                if status = StatusOK then
                  (case putValidateCache h1 user password now_put of
                     Inl p \<Rightarrow> (Inl p, h1, evs)
                   | Inr h2 \<Rightarrow> (Inr True, h2, evs))
                else (Inr False, h1, evs)))"

text \<open>
  \<open>Validate\<close> above is a call that runs alone. The mutex is held inside
  \<^verbatim>\<open>cachedValidate\<close> and inside \<^verbatim>\<open>putValidateCache\<close> only: between the two, and while
  the probe is under way, another call on the same proxy can run its own lookup or its
  own put. A call is thus two steps on the shared proxy: the lookup, and, after a miss,
  the rest of the function. \<open>Validate_probe\<close> is that rest (from \<^verbatim>\<open>http.NewRequest\<close> to
  the end), on the proxy as its put finds it.
\<close>

definition Validate_probe ::
  "http_client \<Rightarrow> HtpasswdProxy \<Rightarrow> string \<Rightarrow> string \<Rightarrow> time
     \<Rightarrow> (panic + bool) \<times> HtpasswdProxy \<times> hp_event list" where
  "Validate_probe client h user password now_put =
     (let (res, err) = client (url h) user password;
          evs = Probe (url h) user password #
                (case err of
                   None \<Rightarrow> []
                 | Some e \<Rightarrow> [LogInvalidResponse (url h) user e])
      in case res of
           None \<Rightarrow> (Inl NilPointerDereference, h, evs)
         | Some status \<Rightarrow>
             if status = StatusOK then
               (case putValidateCache h user password now_put of
                  Inl p \<Rightarrow> (Inl p, h, evs)
                | Inr h2 \<Rightarrow> (Inr True, h2, evs))
             else (Inr False, h, evs))"

text \<open>
  Two calls of \<^verbatim>\<open>Validate\<close> that overlap: the call for \<open>a\<close> looks up, the call for
  \<open>b\<close> looks up, then the first one finishes, then the second one. The result is what
  each call returns and the proxy as the two leave it.
\<close>

definition Validate_overlapped ::
  "http_client \<Rightarrow> HtpasswdProxy \<Rightarrow> string \<times> string \<Rightarrow> string \<times> string
     \<Rightarrow> time \<Rightarrow> time \<Rightarrow> time \<Rightarrow> time
     \<Rightarrow> (panic + bool) \<times> (panic + bool) \<times> HtpasswdProxy" where
  "Validate_overlapped client h a b lookup_a lookup_b put_a put_b =
     (let (hit_a, h1) = cachedValidate h (fst a) (snd a) lookup_a;
          (hit_b, h2) = cachedValidate h1 (fst b) (snd b) lookup_b;
          (r_a, h3, evs_a) = (if hit_a then (Inr True, h2, [])
                              else Validate_probe client h2 (fst a) (snd a) put_a);
          (r_b, h4, evs_b) = (if hit_b then (Inr True, h3, [])
                              else Validate_probe client h3 (fst b) (snd b) put_b)
      in (r_a, r_b, h4))"

definition probes :: "hp_event list \<Rightarrow> nat" where
  "probes evs = length (filter (\<lambda>e. case e of Probe _ _ _ \<Rightarrow> True | _ \<Rightarrow> False) evs)"

text \<open>
  The handler of \<^verbatim>\<open>TestHtpasswdProxy\<close>. \<^verbatim>\<open>req.SetBasicAuth(user, password)\<close> sends
  \<^verbatim>\<open>user:password\<close> (in base64, which the server undoes); \<^verbatim>\<open>req.BasicAuth()\<close> cuts it
  at the first colon.
\<close>

definition BasicAuth :: "string \<Rightarrow> (string \<times> string) option" where
  "BasicAuth credentials = split_first CHR '':'' credentials"

definition test_handler :: "string \<Rightarrow> nat" where
  "test_handler credentials =
     (case BasicAuth credentials of
        None \<Rightarrow> StatusUnauthorized
      | Some (user, pass) \<Rightarrow>
          if user \<noteq> ''testuser'' \<or> pass \<noteq> ''asdf'' then StatusUnauthorized else StatusOK)"

definition test_server :: http_client where
  "test_server u user password = (Some (test_handler (user @ '':'' @ password)), None)"

section \<open>The OAuth proxy (oauthproxy.go)\<close>

subsection \<open>Data\<close>

definition robotsPath :: string where "robotsPath = ''/robots.txt''"
definition pingPath :: string where "pingPath = ''/ping''"
definition signInPath :: string where "signInPath = ''/oauth2/sign_in''"
definition oauthStartPath :: string where "oauthStartPath = ''/oauth2/start''"
definition oauthCallbackPath :: string where "oauthCallbackPath = ''/oauth2/callback''"

text \<open>The fields of \<^verbatim>\<open>url.URL\<close> that the proxy reads and writes.\<close>

record URL =
  Scheme :: string
  Host :: string
  Path :: string

text \<open>
  \<^verbatim>\<open>providers.Provider\<close>: an interface of another package. An error return is the left
  summand. \<^verbatim>\<open>Redeem\<close> gives the body and the access token.
\<close>

record Provider =
  Redeem :: "string \<Rightarrow> string \<Rightarrow> string + (string \<times> string)"
  GetEmailAddress :: "string \<Rightarrow> string \<Rightarrow> string + string"
  ValidateToken :: "string \<Rightarrow> bool"
  ProviderName :: string

text \<open>
  \<^verbatim>\<open>OauthProxy\<close>. A nil \<^verbatim>\<open>HtpasswdValidator\<close> is \<open>None\<close>. The cipher is given by its
  key (\<open>None\<close> is the nil cipher), a compiled regular expression by its
  \<^verbatim>\<open>MatchString\<close>. The handler \<^verbatim>\<open>serveMux\<close> and the templates are not fields here: a call
  of either is an event of the run.
\<close>

record OauthProxy =
  CookieSeed :: string
  CookieKey :: string
  CookieDomain :: string
  CookieSecure :: bool
  CookieHttpOnly :: bool
  CookieExpire :: duration
  CookieRefresh :: duration
  Validator :: "string \<Rightarrow> bool"
  redirectUrl :: URL
  provider :: Provider
  oauthLoginUrl :: URL
  oauthValidateUrl :: URL
  oauthScope :: string
  clientID :: string
  clientSecret :: string
  SignInMessage :: string
  HtpasswdValidator :: "(string \<Rightarrow> string \<Rightarrow> bool) option"
  DisplayHtpasswdForm :: bool
  PassBasicAuth :: bool
  PassAccessToken :: bool
  AesCipher :: "string option"
  skipAuthRegex :: "string list"
  compiledRegex :: "(string \<Rightarrow> bool) list"

text \<open>
  \<^verbatim>\<open>http.Request\<close>. \<open>Header\<close> maps a canonical header name to its values, \<open>Cookies\<close> a
  cookie name to the value of the first cookie of that name. \<open>ParseForm\<close> is the error
  of \<^verbatim>\<open>req.ParseForm()\<close> (\<open>None\<close> is nil) and \<open>Form\<close> the first value of a form key
  once the form is parsed, the empty string when there is none
  (\<^verbatim>\<open>req.Form.Get\<close>, \<^verbatim>\<open>req.FormValue\<close>).
\<close>

record Request =
  Method :: string
  URL_Path :: string
  RequestURI :: string
  req_Host :: string
  RemoteAddr :: string
  Header :: "string \<rightharpoonup> string list"
  Cookies :: "string \<rightharpoonup> string"
  ParseForm :: "string option"
  Form :: "string \<Rightarrow> string"

record Cookie =
  Name :: string
  Value :: string
  Cookie_Path :: string
  Domain :: string
  HttpOnly :: bool
  Secure :: bool
  Expires :: time

text \<open>
  Functions of the standard library, and the functions of this package that live in
  cookies.go and version.go, are parameters of the model, each with the signature the
  calls in oauthproxy.go give it. Those that read the clock stand for the function as it
  answers while the request is served.
\<close>

record externals =
  url_String :: "URL \<Rightarrow> string"
  Values_Encode :: "(string \<times> string) list \<Rightarrow> string"
  SplitHostPort :: "string \<Rightarrow> string option"
  DecodeString :: "string \<Rightarrow> string option"
  EncodeToString :: "string \<Rightarrow> string"
  Quote :: "string \<Rightarrow> string"
  validateCookie :: "string \<times> string \<Rightarrow> string \<Rightarrow> string \<times> time \<times> bool"
  parseCookieValue :: "string \<Rightarrow> string option \<Rightarrow> string \<times> string \<times> string \<times> string option"
  buildCookieValue :: "string \<Rightarrow> string option \<Rightarrow> string \<Rightarrow> string \<times> string option"
  signedCookieValue :: "string \<Rightarrow> string \<Rightarrow> string \<Rightarrow> string"
  VERSION :: string

text \<open>
  What a run of the handler does, in order: the calls on the response writer, the log
  lines, the calls of the provider and of the two validators, and the hand-over of the
  request to \<^verbatim>\<open>serveMux\<close>.
\<close>

datatype arg = S string | N nat

datatype template_data =
    SignInData string string bool string string
  | ErrorData string string

datatype event =
    WriteHeader nat
  | Write string
  | SetHeader string string
  | http_SetCookie Cookie
  | Redirect string nat
  | ExecuteTemplate string template_data
  | Printf string "arg list"
  | CallRedeem string string
  | CallGetEmailAddress string string
  | CallValidateToken string
  | CallValidator string
  | CallHtpasswdValidator string string
  | ServeMux Request

text \<open>\<^verbatim>\<open>req.Header.Get\<close> for a name that is canonical already.\<close>

definition Header_Get :: "Request \<Rightarrow> string \<Rightarrow> string" where
  "Header_Get req k = (case Header req k of Some (v # vs) \<Rightarrow> v | _ \<Rightarrow> [])"

text \<open>\<^verbatim>\<open>strings.HasSuffix\<close>.\<close>

definition HasSuffix :: "string \<Rightarrow> string \<Rightarrow> bool" where
  "HasSuffix s suf = (length suf \<le> length s \<and> drop (length s - length suf) s = suf)"

text \<open>Decimal digits of a number, for the verb \<^verbatim>\<open>%d\<close>.\<close>

fun Itoa :: "nat \<Rightarrow> string" where
  "Itoa n = (if n < 10 then [''0123456789'' ! n] else Itoa (n div 10) @ [''0123456789'' ! (n mod 10)])"

declare Itoa.simps [simp del]

subsection \<open>Login URL\<close>

definition GetRedirectUrl :: "OauthProxy \<Rightarrow> externals \<Rightarrow> string \<Rightarrow> string" where
  "GetRedirectUrl p x host =
     (if Host (redirectUrl p) \<noteq> [] then url_String x (redirectUrl p)
      else
        (let u = redirectUrl p;
             u1 = (if Scheme u = []
                   then (if CookieSecure p then u\<lparr>Scheme := ''https''\<rparr> else u\<lparr>Scheme := ''http''\<rparr>)
                   else u);
             u2 = u1\<lparr>Host := host\<rparr>
         in url_String x u2))"

text \<open>
  \<^verbatim>\<open>url.Values\<close> with \<^verbatim>\<open>Add\<close>: the pairs in the order they are added.
  \<open>login_params\<close> is the variable \<^verbatim>\<open>params\<close> of \<^verbatim>\<open>GetLoginURL\<close> as \<^verbatim>\<open>params.Encode()\<close>
  receives it.
\<close>

definition Values_Add :: "(string \<times> string) list \<Rightarrow> string \<Rightarrow> string \<Rightarrow> (string \<times> string) list" where
  "Values_Add params k v = params @ [(k, v)]"

definition login_params :: "OauthProxy \<Rightarrow> externals \<Rightarrow> string \<Rightarrow> string \<Rightarrow> (string \<times> string) list" where
  "login_params p x host redirect =
     (let params = [];
          params = Values_Add params ''redirect_uri'' (GetRedirectUrl p x host);
          params = Values_Add params ''approval_prompt'' ''force'';
          params = Values_Add params ''scope'' (oauthScope p);
          params = Values_Add params ''client_id'' (clientID p);
          params = Values_Add params ''response_type'' ''code''
      in if HasPrefix redirect ''/'' then Values_Add params ''state'' redirect else params)"

definition GetLoginURL :: "OauthProxy \<Rightarrow> externals \<Rightarrow> string \<Rightarrow> string \<Rightarrow> string" where
  "GetLoginURL p x host redirect =
     url_String x (oauthLoginUrl p) @ ''?'' @ Values_Encode x (login_params p x host redirect)"

definition displayCustomLoginForm :: "OauthProxy \<Rightarrow> bool" where
  "displayCustomLoginForm p = (HtpasswdValidator p \<noteq> None \<and> DisplayHtpasswdForm p)"

subsection \<open>Code redemption\<close>

definition redeemCode ::
  "OauthProxy \<Rightarrow> externals \<Rightarrow> string \<Rightarrow> string \<Rightarrow> (string + (string \<times> string)) \<times> event list" where
  "redeemCode p x host code =
     (if code = [] then (Inl ''missing code'', [])
      else
        (let redirectUri = GetRedirectUrl p x host in
         case Redeem (provider p) redirectUri code of
           Inl err \<Rightarrow> (Inl err, [CallRedeem redirectUri code])
         | Inr (body, access_token) \<Rightarrow>
             (case GetEmailAddress (provider p) body access_token of
                Inl err \<Rightarrow>
                  (Inl err, [CallRedeem redirectUri code, CallGetEmailAddress body access_token])
              | Inr email \<Rightarrow>
                  (Inr (access_token, email),
                   [CallRedeem redirectUri code, CallGetEmailAddress body access_token]))))"

subsection \<open>Cookies\<close>

text \<open>\<open>now\<close> is the reading of the clock in \<^verbatim>\<open>MakeCookie\<close>.\<close>

definition MakeCookie ::
  "OauthProxy \<Rightarrow> externals \<Rightarrow> Request \<Rightarrow> string \<Rightarrow> duration \<Rightarrow> time \<Rightarrow> Cookie \<times> event list" where
  "MakeCookie p x req val expiration now =
     (let domain = (case SplitHostPort x (req_Host req) of
                      Some h \<Rightarrow> h
                    | None \<Rightarrow> req_Host req);
          warn = (if CookieDomain p \<noteq> [] \<and> \<not> HasSuffix domain (CookieDomain p)
                  then [Printf ''Warning: request host is %q but using configured cookie domain of %q''
                          [S domain, S (CookieDomain p)]]
                  else []);
          domain = (if CookieDomain p \<noteq> [] then CookieDomain p else domain);
          val = (if val \<noteq> [] then signedCookieValue x (CookieSeed p) (CookieKey p) val else val)
      in (\<lparr>Name = CookieKey p, Value = val, Cookie_Path = ''/'', Domain = domain,
           HttpOnly = CookieHttpOnly p, Secure = CookieSecure p, Expires = now + expiration\<rparr>,
          warn))"

definition ClearCookie :: "OauthProxy \<Rightarrow> externals \<Rightarrow> Request \<Rightarrow> time \<Rightarrow> event list" where
  "ClearCookie p x req now =
     (let (c, evs) = MakeCookie p x req [] (1 * hour * (- 1)) now in evs @ [http_SetCookie c])"

definition SetCookie :: "OauthProxy \<Rightarrow> externals \<Rightarrow> Request \<Rightarrow> string \<Rightarrow> time \<Rightarrow> event list" where
  "SetCookie p x req val now =
     (let (c, evs) = MakeCookie p x req val (CookieExpire p) now in evs @ [http_SetCookie c])"

text \<open>
  The body of the test \<^verbatim>\<open>refresh_threshold.Unix() > expires.Unix()\<close> in
  \<^verbatim>\<open>ProcessCookie\<close>: the two validations (the second one only after the first
  succeeds, as \<^verbatim>\<open>&&\<close> has it) and, when both succeed, the new cookie.
\<close>

definition revalidate ::
  "OauthProxy \<Rightarrow> externals \<Rightarrow> Request \<Rightarrow> string \<Rightarrow> string \<Rightarrow> string \<Rightarrow> string \<Rightarrow> time
     \<Rightarrow> (string \<times> string \<times> string \<times> bool) \<times> event list" where
  "revalidate p x req val email user access_token now_cookie =
     (if Validator p email then
        (if ValidateToken (provider p) access_token then
           ((email, user, access_token, True),
            [CallValidator email, CallValidateToken access_token]
              @ SetCookie p x req val now_cookie)
         else
           ((email, user, access_token, False),
            [CallValidator email, CallValidateToken access_token]))
      else ((email, user, access_token, False), [CallValidator email]))"

text \<open>
  \<^verbatim>\<open>ProcessCookie\<close>: \<open>now\<close> is the reading of the clock for the refresh threshold,
  \<open>now_cookie\<close> the one of \<^verbatim>\<open>MakeCookie\<close>. The result is
  \<open>(email, user, access_token, ok)\<close> and the events.
\<close>

definition ProcessCookie ::
  "OauthProxy \<Rightarrow> externals \<Rightarrow> Request \<Rightarrow> time \<Rightarrow> time
     \<Rightarrow> (string \<times> string \<times> string \<times> bool) \<times> event list" where
  "ProcessCookie p x req now now_cookie =
     (let (val, timestamp, ok, email, user, access_token, err) =
            (case Cookies req (CookieKey p) of
               None \<Rightarrow> ([], zero_time, False, [], [], [], Some ''http: named cookie not present'')
             | Some v \<Rightarrow>
                 (let (val, timestamp, ok) = validateCookie x (CookieKey p, v) (CookieSeed p) in
                  if ok then
                    (let (email, user, access_token, err) = parseCookieValue x val (AesCipher p)
                     in (val, timestamp, ok, email, user, access_token, err))
                  else (val, timestamp, ok, [], [], [], None)))
      in case err of
           Some e \<Rightarrow> ((email, user, access_token, False), [Printf e []])
         | None \<Rightarrow>
             if CookieRefresh p \<noteq> 0 then
               (let expires = timestamp + CookieExpire p;
                    refresh_threshold = now + CookieRefresh p
                in if Unix refresh_threshold > Unix expires
                   then revalidate p x req val email user access_token now_cookie
                   else ((email, user, access_token, ok), []))
             else ((email, user, access_token, ok), []))"

subsection \<open>Pages\<close>

definition RobotsTxt :: "event list" where
  "RobotsTxt = [WriteHeader 200, Write (''User-agent: *'' @ [CHR 0x0A] @ ''Disallow: /'')]"

definition PingPage :: "event list" where
  "PingPage = [WriteHeader 200, Write ''OK'']"

definition ErrorPage :: "nat \<Rightarrow> string \<Rightarrow> string \<Rightarrow> event list" where
  "ErrorPage code title message =
     [Printf ''ErrorPage %d %s %s'' [N code, S title, S message],
      WriteHeader code,
      ExecuteTemplate ''error.html'' (ErrorData (Itoa code @ '' '' @ title) message)]"

definition SignInPage :: "OauthProxy \<Rightarrow> externals \<Rightarrow> Request \<Rightarrow> nat \<Rightarrow> time \<Rightarrow> event list" where
  "SignInPage p x req code now =
     ClearCookie p x req now @
     [WriteHeader code,
      ExecuteTemplate ''sign_in.html''
        (SignInData (ProviderName (provider p)) (SignInMessage p) (displayCustomLoginForm p)
           (if RequestURI req = signInPath then ''/'' else RequestURI req)
           (VERSION x))]"

definition ManualSignIn :: "OauthProxy \<Rightarrow> Request \<Rightarrow> (string \<times> bool) \<times> event list" where
  "ManualSignIn p req =
     (case HtpasswdValidator p of
        None \<Rightarrow> (([], False), [])
      | Some validate \<Rightarrow>
          if Method req \<noteq> ''POST'' then (([], False), [])
          else
            (let user = Form req ''username''; passwd = Form req ''password'' in
             if user = [] then (([], False), [])
             else if validate user passwd then
               ((user, True),
                [CallHtpasswdValidator user passwd,
                 Printf ''authenticated %q via manual sign in'' [S user]])
             else (([], False), [CallHtpasswdValidator user passwd])))"

definition GetRedirect :: "Request \<Rightarrow> string + string" where
  "GetRedirect req =
     (case ParseForm req of
        Some err \<Rightarrow> Inl err
      | None \<Rightarrow> Inr (if Form req ''rd'' = [] then ''/'' else Form req ''rd''))"

subsection \<open>Basic authentication\<close>

definition CheckBasicAuth :: "OauthProxy \<Rightarrow> externals \<Rightarrow> Request \<Rightarrow> (string \<times> bool) \<times> event list" where
  "CheckBasicAuth p x req =
     (case HtpasswdValidator p of
        None \<Rightarrow> (([], False), [])
      | Some validate \<Rightarrow>
          (let s = SplitN2 (Header_Get req ''Authorization'') CHR '' '' in
           if length s \<noteq> 2 \<or> s ! 0 \<noteq> ''Basic'' then (([], False), [])
           else
             (case DecodeString x (s ! 1) of
                None \<Rightarrow> (([], False), [])
              | Some b \<Rightarrow>
                  (let pair = SplitN2 b CHR '':'' in
                   if length pair \<noteq> 2 then (([], False), [])
                   else if validate (pair ! 0) (pair ! 1) then
                     ((pair ! 0, True),
                      [CallHtpasswdValidator (pair ! 0) (pair ! 1),
                       Printf ''authenticated %q via basic auth'' [S (pair ! 0)]])
                   else (([], False), [CallHtpasswdValidator (pair ! 0) (pair ! 1)])))))"

subsection \<open>The handler\<close>

text \<open>The loop over \<^verbatim>\<open>p.compiledRegex\<close>: does some pattern match the path?\<close>

fun skip_auth :: "(string \<Rightarrow> bool) list \<Rightarrow> string \<Rightarrow> bool" where
  "skip_auth [] path = False"
| "skip_auth (u # us) path = (if u path then True else skip_auth us path)"

text \<open>\<^verbatim>\<open>req.SetBasicAuth(user, "")\<close>.\<close>

definition SetBasicAuth :: "externals \<Rightarrow> Request \<Rightarrow> string \<Rightarrow> string \<Rightarrow> Request" where
  "SetBasicAuth x req username password =
     req\<lparr>Header := (Header req)(''Authorization'' \<mapsto>
            [''Basic '' @ EncodeToString x (username @ '':'' @ password)])\<rparr>"

text \<open>
  The four blocks of \<^verbatim>\<open>ServeHTTP\<close> that end a request, each under the name of its path
  or of its comment: the sign-in path, the start path, the callback path, and the tail
  after the comment ``At this point, the user is authenticated. proxy normally''.
\<close>

definition serve_sign_in :: "OauthProxy \<Rightarrow> externals \<Rightarrow> Request \<Rightarrow> time \<Rightarrow> event list" where
  "serve_sign_in p x req now_cookie =
     (case GetRedirect req of
        Inl err \<Rightarrow> ErrorPage 500 ''Internal Error'' err
      | Inr redirect \<Rightarrow>
          (let ((user, ok), evs) = ManualSignIn p req in
           if ok then evs @ SetCookie p x req user now_cookie @ [Redirect redirect 302]
           else evs @ SignInPage p x req 200 now_cookie))"

definition serve_oauth_start :: "OauthProxy \<Rightarrow> externals \<Rightarrow> Request \<Rightarrow> event list" where
  "serve_oauth_start p x req =
     (case GetRedirect req of
        Inl err \<Rightarrow> ErrorPage 500 ''Internal Error'' err
      | Inr redirect \<Rightarrow> [Redirect (GetLoginURL p x (req_Host req) redirect) 302])"

definition serve_oauth_callback ::
  "OauthProxy \<Rightarrow> externals \<Rightarrow> Request \<Rightarrow> string \<Rightarrow> time \<Rightarrow> event list" where
  "serve_oauth_callback p x req remoteAddr now_cookie =
     (case ParseForm req of
        Some err \<Rightarrow> ErrorPage 500 ''Internal Error'' err
      | None \<Rightarrow>
          (let errorString = Form req ''error'' in
           if errorString \<noteq> [] then ErrorPage 403 ''Permission Denied'' errorString
           else
             (case redeemCode p x (req_Host req) (Form req ''code'') of
                (Inl err, evs) \<Rightarrow>
                  evs @ [Printf ''%s error redeeming code %s'' [S remoteAddr, S err]]
                      @ ErrorPage 500 ''Internal Error'' err
              | (Inr (access_token, email), evs) \<Rightarrow>
                  (let redirect = (if Form req ''state'' = [] then ''/'' else Form req ''state'') in
                   if Validator p email then
                     (let (val, err) = buildCookieValue x email (AesCipher p) access_token in
                      evs @ [CallValidator email,
                             Printf ''%s authenticating %s completed'' [S remoteAddr, S email]]
                          @ (case err of None \<Rightarrow> [] | Some e \<Rightarrow> [Printf e []])
                          @ SetCookie p x req val now_cookie
                          @ [Redirect redirect 302])
                   else
                     evs @ [CallValidator email]
                         @ ErrorPage 403 ''Permission Denied'' ''Invalid Account''))))"

definition proxy_normally ::
  "OauthProxy \<Rightarrow> externals \<Rightarrow> Request \<Rightarrow> string \<Rightarrow> string \<Rightarrow> string \<Rightarrow> event list" where
  "proxy_normally p x req user email access_token =
     (let req1 = (if PassBasicAuth p then
                    (let r = SetBasicAuth x req user [];
                         r = r\<lparr>Header := (Header r)(''X-Forwarded-User'' \<mapsto> [user])\<rparr>
                     in r\<lparr>Header := (Header r)(''X-Forwarded-Email'' \<mapsto> [email])\<rparr>)
                  else req);
          req2 = (if PassAccessToken p
                  then req1\<lparr>Header := (Header req1)(''X-Forwarded-Access-Token'' \<mapsto> [access_token])\<rparr>
                  else req1)
      in [if email = [] then SetHeader ''GAP-Auth'' user else SetHeader ''GAP-Auth'' email,
          ServeMux req2])"

text \<open>
  \<^verbatim>\<open>ServeHTTP\<close>. \<open>now\<close> is the reading of the clock in \<^verbatim>\<open>ProcessCookie\<close>,
  \<open>now_cookie\<close> the one in \<^verbatim>\<open>MakeCookie\<close> (every path makes at most one cookie).
  \<^verbatim>\<open>Header.Get("X-Real-IP")\<close> reads the canonical name \<^verbatim>\<open>X-Real-Ip\<close>.
\<close>

definition ServeHTTP :: "OauthProxy \<Rightarrow> externals \<Rightarrow> Request \<Rightarrow> time \<Rightarrow> time \<Rightarrow> event list" where
  "ServeHTTP p x req now now_cookie =
     (let remoteAddr = (if Header_Get req ''X-Real-Ip'' \<noteq> []
                        then RemoteAddr req @ '' ('' @ Quote x (Header_Get req ''X-Real-Ip'') @ '')''
                        else RemoteAddr req)
      in if URL_Path req = robotsPath then RobotsTxt
         else if URL_Path req = pingPath then PingPage
         else if skip_auth (compiledRegex p) (URL_Path req) then [ServeMux req]
         else if URL_Path req = signInPath then serve_sign_in p x req now_cookie
         else if URL_Path req = oauthStartPath then serve_oauth_start p x req
         else if URL_Path req = oauthCallbackPath then serve_oauth_callback p x req remoteAddr now_cookie
         else
           (let ((email, user, access_token, ok), evs1) = ProcessCookie p x req now now_cookie;
                ((user, ok), evs2) = (if \<not> ok then CheckBasicAuth p x req else ((user, ok), []))
            in if \<not> ok then evs1 @ evs2 @ SignInPage p x req 403 now_cookie
               else evs1 @ evs2 @ proxy_normally p x req user email access_token))"

section \<open>Terms of the specification\<close>

text \<open>
  The events that answer a request: a status line, a redirect, or the hand-over to the
  upstream handler.
\<close>

fun is_response :: "event \<Rightarrow> bool" where
  "is_response (WriteHeader code) = True"
| "is_response (Redirect u code) = True"
| "is_response (ServeMux r) = True"
| "is_response e = False"

text \<open>
  In the words of the specification, a ``same-site relative path'': a path on this
  site. It starts with a slash, and not with two: \<^verbatim>\<open>//host/path\<close> names another host
  (a network-path reference), and a browser that is redirected to it leaves the site.
\<close>

definition spec_same_site_relative_path :: "string \<Rightarrow> bool" where
  "spec_same_site_relative_path redirect =
     (HasPrefix redirect ''/'' \<and> \<not> HasPrefix redirect ''//'')"

text \<open>
  The \<^verbatim>\<open>Authorization\<close> header of the request is \<^verbatim>\<open>Basic\<close>, a space, and text that
  the base64 decoder accepts and decodes to \<open>u\<close>, a colon and \<open>pw\<close>, where \<open>u\<close> has
  no colon.
\<close>

definition well_formed_basic :: "externals \<Rightarrow> Request \<Rightarrow> string \<Rightarrow> string \<Rightarrow> bool" where
  "well_formed_basic x req u pw =
     (\<exists>s. Header_Get req ''Authorization'' = ''Basic '' @ s \<and>
          DecodeString x s = Some (u @ '':'' @ pw) \<and> CHR '':'' \<notin> set u)"

section \<open>Concrete inputs\<close>

text \<open>An instant of the year 2015, and a client whose connection is refused.\<close>

definition t0 :: time where
  "t0 = 1446336000 * second"

definition refusing_client :: http_client where
  "refusing_client u user password = (None, Some ''dial tcp 127.0.0.1:9: connection refused'')"

text \<open>A cache of 101 entries, all validated at \<open>t\<close>; the second one is for \<^verbatim>\<open>u:pw\<close>.\<close>

definition full_cache :: "time \<Rightarrow> (string, time) fmap" where
  "full_cache t =
     fmap_of_list (map (\<lambda>i. (cache_key (replicate i CHR ''u'') ''pw'', t)) [0..<101])"

text \<open>
  A cache of 100 entries, all validated at \<open>t\<close>, and a client whose server accepts
  every pair.
\<close>

definition hundred_cache :: "time \<Rightarrow> (string, time) fmap" where
  "hundred_cache t =
     fmap_of_list (map (\<lambda>i. (cache_key (replicate i CHR ''u'') ''pw'', t)) [0..<100])"

definition accepting_client :: http_client where
  "accepting_client u user password = (Some StatusOK, None)"

text \<open>
  A provider, a proxy and requests. The functions of the library and of cookies.go are
  given on the strings of these requests only: the two base64 texts are those of
  \<^verbatim>\<open>testuser:asdf\<close> and \<^verbatim>\<open>u:p:q\<close>, and the cookies \<^verbatim>\<open>stale\<close> and \<^verbatim>\<open>fresh\<close> are
  signed cookies issued one second before and one second after the instant
  \<open>now - CookieExpire + CookieRefresh\<close> of the clock of the examples.
\<close>

definition example_provider :: Provider where
  "example_provider =
     \<lparr>Redeem = (\<lambda>uri code. if code = ''good'' then Inr (''body'', ''token'') else Inl ''bad code''),
      GetEmailAddress = (\<lambda>body token. Inr ''user@example.com''),
      ValidateToken = (\<lambda>token. token = ''token''),
      ProviderName = ''Google''\<rparr>"

definition example_externals :: externals where
  "example_externals =
     \<lparr>url_String = (\<lambda>u. Scheme u @ ''://'' @ Host u @ Path u),
      Values_Encode = (\<lambda>ps. concat (map (\<lambda>(k, v). k @ ''='' @ v @ ''&'') ps)),
      SplitHostPort = (\<lambda>s. None),
      DecodeString = (\<lambda>s.
         if s = ''dGVzdHVzZXI6YXNkZg=='' then Some ''testuser:asdf''
         else if s = ''dTpwOnE='' then Some ''u:p:q''
         else None),
      EncodeToString = (\<lambda>s. if s = ''user:'' then ''dXNlcjo='' else []),
      Quote = (\<lambda>s. s),
      validateCookie = (\<lambda>c seed.
         if snd c = ''stale'' then (''payload'', (1446336000 - 86400 + 3600 - 1) * second, True)
         else if snd c = ''fresh'' then (''payload'', (1446336000 - 86400 + 3600 + 1) * second, True)
         else ([], zero_time, False)),
      parseCookieValue = (\<lambda>v k.
         if v = ''payload'' then (''user@example.com'', ''user'', ''token'', None)
         else ([], [], [], Some ''malformed'')),
      buildCookieValue = (\<lambda>email k token. (email, None)),
      signedCookieValue = (\<lambda>seed key v. v @ ''|signed''),
      VERSION = ''1.0''\<rparr>"

definition example_proxy :: OauthProxy where
  "example_proxy =
     \<lparr>CookieSeed = ''seed'', CookieKey = ''_oauthproxy'', CookieDomain = [],
      CookieSecure = True, CookieHttpOnly = True,
      CookieExpire = 86400 * second, CookieRefresh = 3600 * second,
      Validator = (\<lambda>email. email = ''user@example.com''),
      redirectUrl = \<lparr>Scheme = [], Host = [], Path = oauthCallbackPath\<rparr>,
      provider = example_provider,
      oauthLoginUrl =
        \<lparr>Scheme = ''https'', Host = ''accounts.google.com'', Path = ''/o/oauth2/auth''\<rparr>,
      oauthValidateUrl =
        \<lparr>Scheme = ''https'', Host = ''www.googleapis.com'', Path = ''/oauth2/v1/tokeninfo''\<rparr>,
      oauthScope = ''profile email'', clientID = ''id'', clientSecret = ''secret'',
      SignInMessage = [],
      HtpasswdValidator = Some (\<lambda>user password. user = ''testuser'' \<and> password = ''asdf''),
      DisplayHtpasswdForm = False,
      PassBasicAuth = False, PassAccessToken = False,
      AesCipher = Some ''0123456789abcdef'',
      skipAuthRegex = [''^/public/''],
      compiledRegex = [\<lambda>path. HasPrefix path ''/public/'']\<rparr>"

definition pass_proxy :: OauthProxy where
  "pass_proxy = example_proxy\<lparr>PassBasicAuth := True, PassAccessToken := True\<rparr>"

definition get_request :: "string \<Rightarrow> Request" where
  "get_request path =
     \<lparr>Method = ''GET'', URL_Path = path, RequestURI = path, req_Host = ''proxy.example.com'',
      RemoteAddr = ''10.0.0.1:5000'', Header = Map.empty, Cookies = Map.empty,
      ParseForm = None, Form = (\<lambda>k. [])\<rparr>"

definition basic_request :: Request where
  "basic_request =
     (get_request ''/app'')\<lparr>Header := [''Authorization'' \<mapsto> [''Basic dGVzdHVzZXI6YXNkZg=='']]\<rparr>"

definition colon_request :: Request where
  "colon_request =
     (get_request ''/app'')\<lparr>Header := [''Authorization'' \<mapsto> [''Basic dTpwOnE='']]\<rparr>"

definition cookie_request :: "string \<Rightarrow> Request" where
  "cookie_request v = (get_request ''/app'')\<lparr>Cookies := [''_oauthproxy'' \<mapsto> v]\<rparr>"

definition denied_callback :: Request where
  "denied_callback =
     (get_request ''/oauth2/callback'')
       \<lparr>Form := (\<lambda>k. if k = ''error'' then ''access_denied'' else [])\<rparr>"

text \<open>
  The request \<^verbatim>\<open>GET /oauth2/callback?error=access_denied&x=%zz\<close>: \<^verbatim>\<open>ParseForm\<close>
  reports the bad escape and keeps the values it could read.
\<close>

definition unparsed_callback :: Request where
  "unparsed_callback = denied_callback\<lparr>ParseForm := Some ''invalid URL escape''\<rparr>"

text \<open>
  The functions of the examples, with one more cookie: \<^verbatim>\<open>boundary\<close> is issued at the
  instant \<open>now - CookieExpire + CookieRefresh\<close> itself, to the second.
\<close>

definition boundary_externals :: externals where
  "boundary_externals =
     example_externals\<lparr>validateCookie := (\<lambda>c seed.
        if snd c = ''boundary'' then (''payload'', (1446336000 - 86400 + 3600) * second, True)
        else validateCookie example_externals c seed)\<rparr>"

section \<open>Properties of the delegated validator\<close>

subsection \<open>The cache\<close>

lemma len_fmempty: "len fmempty = 0"
  by (simp add: len_def)

lemma len_fmupd_le: "len (fmupd k v m) \<le> Suc (len m)"
  by (simp add: len_def fcard_finsert_if)

lemma len_singleton: "len (fmupd k v fmempty) = 1"
  by (simp add: len_def fcard_finsert_if fcard_fempty)

lemma cachedValidate_cache:
  "\<exists>m. cache_m (snd (cachedValidate h u p now)) = Some m \<and> len m \<le> 100"
  by (auto simp: cachedValidate_def Let_def len_fmempty split: option.splits)

lemma cachedValidate_url: "url (snd (cachedValidate h u p now)) = url h"
  by (simp add: cachedValidate_def Let_def)

text \<open>A second lookup finds the cache as the first one left it.\<close>

lemma cachedValidate_idem:
  assumes "cachedValidate h user password now = (hit, h1)"
  shows "cachedValidate h1 user password now2 = (fst (cachedValidate h user password now2), h1)"
  using assms by (auto simp: cachedValidate_def Let_def len_fmempty split: option.splits)

lemma cachedValidate_mono:
  "now \<le> now2 \<Longrightarrow> fst (cachedValidate h user password now2)
     \<Longrightarrow> fst (cachedValidate h user password now)"
  by (auto simp: cachedValidate_def Let_def)

lemma zero_time_expired: "zero_time + minute \<le> t0"
  by (simp add: zero_time_def minute_def second_def t0_def)

lemma full_cache_keys_inj: "inj_on (\<lambda>i. cache_key (replicate i CHR ''u'') ''pw'') A"
proof (rule inj_onI)
  fix i j
  assume "cache_key (replicate i CHR ''u'') ''pw'' = cache_key (replicate j CHR ''u'') ''pw''"
  then have "length (cache_key (replicate i CHR ''u'') ''pw'')
             = length (cache_key (replicate j CHR ''u'') ''pw'')"
    by simp
  then show "i = j" by (simp add: cache_key_def)
qed

lemma len_full_cache: "len (full_cache t) = 101"
proof -
  let ?ks = "map (\<lambda>i. cache_key (replicate i CHR ''u'') ''pw'') [0..<101]"
  have d: "distinct ?ks"
    by (simp add: distinct_map full_cache_keys_inj)
  have "len (full_cache t) = card (set ?ks)"
    by (simp add: len_def full_cache_def fcard.rep_eq fset_of_list.rep_eq comp_def)
  also have "\<dots> = length ?ks" using d by (rule distinct_card)
  finally show ?thesis by simp
qed

lemma map_of_const_keys:
  "i \<in> set xs \<Longrightarrow> map_of (map (\<lambda>i. (f i, v)) xs) (f i) = Some v"
  by (induction xs) auto

lemma lookup_full_cache: "fmlookup (full_cache t) (cache_key ''u'' ''pw'') = Some t"
proof -
  have "(1::nat) \<in> set [0..<101]" by simp
  from map_of_const_keys [OF this, of "\<lambda>i. cache_key (replicate i CHR ''u'') ''pw''" t]
  show ?thesis by (simp add: full_cache_def fmlookup_of_list)
qed

text \<open>
  C5. Let the clock be past the first minute of year 1 (it always is) and the cache be
  a map \<open>m\<close>. An entry of the pair that is one minute old or older is a miss of
  \<open>cachedValidate\<close>, as an absent entry is. When \<open>m\<close> holds more than 100 entries, the
  lookup leaves the cache empty\<emdash>all of it, whatever the age of the entries\<emdash>and
  misses, so the pair is probed again.
\<close>

theorem cachedValidate_ttl_and_reset:
  assumes "zero_time + minute \<le> now" and "cache_m h = Some m"
  shows "(\<forall>t. fmlookup m (cache_key user password) = Some t \<and> t + minute \<le> now
            \<longrightarrow> \<not> fst (cachedValidate h user password now)) \<and>
         (len m > 100
            \<longrightarrow> \<not> fst (cachedValidate h user password now) \<and>
                snd (cachedValidate h user password now) = h\<lparr>cache_m := Some fmempty\<rparr>)"
  using assms by (auto simp: cachedValidate_def Let_def)

theorem cachedValidate_ttl_and_reset_witness:
  "zero_time + minute \<le> t0 \<and>
   fmlookup (full_cache (t0 - minute)) (cache_key ''u'' ''pw'') = Some (t0 - minute) \<and>
   len (full_cache (t0 - minute)) > 100 \<and>
   \<not> fst (cachedValidate \<lparr>url = ''http://x/'', cache_m = Some (full_cache (t0 - minute))\<rparr>
            ''u'' ''pw'' t0) \<and>
   snd (cachedValidate \<lparr>url = ''http://x/'', cache_m = Some (full_cache (t0 - minute))\<rparr>
            ''u'' ''pw'' t0)
     = \<lparr>url = ''http://x/'', cache_m = Some fmempty\<rparr>"
proof -
  have b: "cache_m \<lparr>url = ''http://x/'', cache_m = Some (full_cache (t0 - minute))\<rparr>
           = Some (full_cache (t0 - minute))"
    by simp
  show ?thesis
    using cachedValidate_ttl_and_reset [OF zero_time_expired b, of "''u''" "''pw''"]
      zero_time_expired
    by (simp add: lookup_full_cache len_full_cache)
qed

subsection \<open>Validate\<close>

lemma Validate_nil_response:
  assumes "\<not> fst (cachedValidate h user password now)"
    and "client (url h) user password = (None, err)"
  shows "fst (Validate client h user password now now') = Inl NilPointerDereference"
proof -
  obtain h1 where cv: "cachedValidate h user password now = (False, h1)"
    using assms(1) by (cases "cachedValidate h user password now") auto
  have "url h1 = url h" using cachedValidate_url [of h user password now] cv by simp
  with cv assms(2) show ?thesis by (simp add: Validate_def)
qed

lemma Validate_not_OK:
  assumes "\<not> fst (cachedValidate h user password now)"
    and "client (url h) user password = (Some status, err)" and "status \<noteq> StatusOK"
  shows "fst (Validate client h user password now now') = Inr False"
proof -
  obtain h1 where cv: "cachedValidate h user password now = (False, h1)"
    using assms(1) by (cases "cachedValidate h user password now") auto
  have "url h1 = url h" using cachedValidate_url [of h user password now] cv by simp
  with cv assms(2,3) show ?thesis by (simp add: Validate_def)
qed

text \<open>
  C1. A pair that misses the cache, a client that returns no response and an error
  (connection refused): \<open>Validate\<close> probes, logs the error, and then ends in the panic of
  \<^verbatim>\<open>res.Body.Close()\<close> on the nil response. It does not return false.
\<close>

theorem Validate_transport_failure_panics:
  "Validate refusing_client \<lparr>url = ''http://127.0.0.1:9/'', cache_m = None\<rparr>
     ''testuser'' ''asdf'' t0 t0
   = (Inl NilPointerDereference,
      \<lparr>url = ''http://127.0.0.1:9/'', cache_m = Some fmempty\<rparr>,
      [Probe ''http://127.0.0.1:9/'' ''testuser'' ''asdf'',
       LogInvalidResponse ''http://127.0.0.1:9/'' ''testuser''
         ''dial tcp 127.0.0.1:9: connection refused''])"
  by (simp add: Validate_def cachedValidate_def refusing_client_def t0_def zero_time_def
      minute_def second_def Let_def)

lemma Validate_alone_bounded:
  "fst (Validate client h user password now now') \<noteq> Inl NilMapAssignment \<and>
   (\<exists>m. cache_m (fst (snd (Validate client h user password now now'))) = Some m \<and> len m \<le> 101)"
proof -
  obtain hit h1 where cv: "cachedValidate h user password now = (hit, h1)"
    by (cases "cachedValidate h user password now")
  from cachedValidate_cache [of h user password now] cv
  obtain m where m: "cache_m h1 = Some m" "len m \<le> 100" by auto
  have put: "putValidateCache h1 user password now'
             = Inr (h1\<lparr>cache_m := Some (fmupd (cache_key user password) now' m)\<rparr>)"
    by (simp add: putValidateCache_def m)
  have "len (fmupd (cache_key user password) now' m) \<le> 101"
    using len_fmupd_le [of "cache_key user password" now' m] m by simp
  with m put cv show ?thesis
    by (auto simp: Validate_def Let_def split: prod.splits option.splits)
qed

lemma Validate_alone:
  "Validate client h user password now now' =
     (case cachedValidate h user password now of
        (hit, h1) \<Rightarrow> if hit then (Inr True, h1, []) else Validate_probe client h1 user password now')"
  by (simp add: Validate_def Validate_probe_def split: prod.splits)

lemma Validate_probe_cache:
  "fst (Validate_probe client (h\<lparr>cache_m := Some m\<rparr>) user password now') \<noteq> Inl NilMapAssignment \<and>
   (\<exists>m'. cache_m (fst (snd (Validate_probe client (h\<lparr>cache_m := Some m\<rparr>) user password now')))
            = Some m' \<and> len m' \<le> Suc (len m))"
  using len_fmupd_le [of "cache_key user password" now' m]
  by (auto simp: Validate_probe_def putValidateCache_def Let_def split: prod.splits option.splits)

lemma hundred_cache_key_last:
  "k \<in> fset (fmdom (hundred_cache t)) \<Longrightarrow> last k = CHR ''w''"
  by (auto simp: hundred_cache_def fset_of_list.rep_eq cache_key_def)

lemma len_hundred_cache: "len (hundred_cache t) = 100"
proof -
  let ?ks = "map (\<lambda>i. cache_key (replicate i CHR ''u'') ''pw'') [0..<100]"
  have d: "distinct ?ks"
    by (simp add: distinct_map full_cache_keys_inj)
  have "len (hundred_cache t) = card (set ?ks)"
    by (simp add: len_def hundred_cache_def fcard.rep_eq fset_of_list.rep_eq comp_def)
  also have "\<dots> = length ?ks" using d by (rule distinct_card)
  finally show ?thesis by simp
qed

lemma hundred_cache_absent:
  "last k \<noteq> CHR ''w'' \<Longrightarrow> fmlookup (hundred_cache t) k = None"
  using hundred_cache_key_last [of k t] by (auto simp: fmdom_notD)

lemma len_two_more: "len (fmupd ''b:x'' t (fmupd ''a:x'' t (hundred_cache t'))) = 102"
proof -
  have a: "''a:x'' |\<notin>| fmdom (hundred_cache t')"
    using hundred_cache_key_last [of "''a:x''" t'] by auto
  have b: "''b:x'' |\<notin>| fmdom (hundred_cache t')"
    using hundred_cache_key_last [of "''b:x''" t'] by auto
  show ?thesis
    using a b len_hundred_cache [of t']
    by (simp add: len_def fcard_finsert_if)
qed

text \<open>
  C9, as stated, fails for calls that overlap. The cache holds 100 entries; the call
  for \<^verbatim>\<open>a\<close> and the call for \<^verbatim>\<open>b\<close> both look up and miss, and no lookup resets a
  cache of 100; both probes are accepted and both calls put. Both calls return true,
  and the cache they leave holds 102 entries.
\<close>

theorem overlapping_calls_exceed_bound:
  "fst (Validate_overlapped accepting_client
          \<lparr>url = ''http://x/'', cache_m = Some (hundred_cache t0)\<rparr>
          (''a'', ''x'') (''b'', ''x'') t0 t0 t0 t0) = Inr True \<and>
   fst (snd (Validate_overlapped accepting_client
          \<lparr>url = ''http://x/'', cache_m = Some (hundred_cache t0)\<rparr>
          (''a'', ''x'') (''b'', ''x'') t0 t0 t0 t0)) = Inr True \<and>
   snd (snd (Validate_overlapped accepting_client
          \<lparr>url = ''http://x/'', cache_m = Some (hundred_cache t0)\<rparr>
          (''a'', ''x'') (''b'', ''x'') t0 t0 t0 t0))
     = \<lparr>url = ''http://x/'',
        cache_m = Some (fmupd ''b:x'' t0 (fmupd ''a:x'' t0 (hundred_cache t0)))\<rparr> \<and>
   len (fmupd ''b:x'' t0 (fmupd ''a:x'' t0 (hundred_cache t0))) = 102"
proof -
  let ?h = "\<lparr>url = ''http://x/'', cache_m = Some (hundred_cache t0)\<rparr>"
  have la: "fmlookup (hundred_cache t0) ''a:x'' = None"
    and lb: "fmlookup (hundred_cache t0) ''b:x'' = None"
    by (simp_all add: hundred_cache_absent)
  have ca: "cachedValidate ?h ''a'' ''x'' t0 = (False, ?h)"
    using zero_time_expired
    by (simp add: cachedValidate_def cache_key_def len_hundred_cache la Let_def)
  have cb: "cachedValidate ?h ''b'' ''x'' t0 = (False, ?h)"
    using zero_time_expired
    by (simp add: cachedValidate_def cache_key_def len_hundred_cache lb Let_def)
  have r: "Validate_overlapped accepting_client ?h (''a'', ''x'') (''b'', ''x'') t0 t0 t0 t0
           = (Inr True, Inr True,
              \<lparr>url = ''http://x/'',
               cache_m = Some (fmupd ''b:x'' t0 (fmupd ''a:x'' t0 (hundred_cache t0)))\<rparr>)"
    by (simp add: Validate_overlapped_def ca cb Validate_probe_def putValidateCache_def
        accepting_client_def cache_key_def Let_def)
  show ?thesis by (simp add: r len_two_more)
qed

text \<open>
  C9, amended. A call of \<open>Validate\<close> that runs alone never ends in the panic of a write
  to a nil map, and it leaves the cache a map of at most 101 entries, whether it returns
  or not. Step by step, for calls that may overlap: every lookup leaves the cache a map
  of at most 100 entries, and the rest of a call, run on a cache that is a map, never
  writes to a nil map and leaves a map with at most one entry more.
\<close>

theorem Validate_cache_bounded:
  "fst (Validate client h user password now now') \<noteq> Inl NilMapAssignment \<and>
   (\<exists>m. cache_m (fst (snd (Validate client h user password now now'))) = Some m \<and>
        len m \<le> 101) \<and>
   (\<exists>m. cache_m (snd (cachedValidate h user password now)) = Some m \<and> len m \<le> 100) \<and>
   fst (Validate_probe client (h\<lparr>cache_m := Some m0\<rparr>) user password now')
     \<noteq> Inl NilMapAssignment \<and>
   (\<exists>m'. cache_m (fst (snd (Validate_probe client (h\<lparr>cache_m := Some m0\<rparr>)
                                 user password now'))) = Some m' \<and>
         len m' \<le> Suc (len m0))"
  using Validate_alone_bounded [of client h user password now now']
    cachedValidate_cache [of h user password now]
    Validate_probe_cache [where client = client and h = h and m = m0 and user = user
      and password = password and now' = now']
  by blast

lemma Validate_failure_not_cached:
  assumes "fst (Validate client h user password now now') = Inr False" and "now \<le> now2"
  shows "\<not> fst (cachedValidate (fst (snd (Validate client h user password now now')))
                 user password now2)"
proof -
  obtain hit h1 where cv: "cachedValidate h user password now = (hit, h1)"
    by (cases "cachedValidate h user password now")
  from assms(1) cv have miss: "\<not> hit"
    by (auto simp: Validate_def)
  from assms(1) cv miss have h': "fst (snd (Validate client h user password now now')) = h1"
    by (auto simp: Validate_def Let_def split: prod.splits option.splits if_splits sum.splits)
  have "\<not> fst (cachedValidate h user password now2)"
    using cachedValidate_mono [OF assms(2), of h user password] cv miss by auto
  then show ?thesis
    by (simp add: h' cachedValidate_idem [OF cv])
qed

lemma Validate_success_cached:
  assumes "\<not> fst (cachedValidate h user password now)"
    and "fst (Validate client h user password now now') = Inr True"
  shows "\<exists>m. cache_m (fst (snd (Validate client h user password now now'))) = Some m \<and>
             fmlookup m (cache_key user password) = Some now'"
proof -
  obtain h1 where cv: "cachedValidate h user password now = (False, h1)"
    using assms(1) by (cases "cachedValidate h user password now") auto
  from assms(2) cv show ?thesis
    by (auto simp: Validate_def Let_def putValidateCache_def
        split: prod.splits option.splits if_splits sum.splits)
qed

lemma test_handler_testuser: "test_handler ''testuser:asdf'' = StatusOK"
  by (simp add: test_handler_def BasicAuth_def)

lemma test_handler_notfound: "test_handler ''notfound:asdf'' = StatusUnauthorized"
  by (simp add: test_handler_def BasicAuth_def)

lemma TestHtpasswdProxy_run:
  assumes "NewHtpasswdProxy parse u = Inr h0"
    and "zero_time + minute \<le> t1" and "t1 \<le> t2" and "t3 < t1' + minute"
  shows "(let (r1, h1, e1) = Validate test_server h0 ''testuser'' ''asdf'' t1 t1';
              (r2, h2, e2) = Validate test_server h1 ''notfound'' ''asdf'' t2 t2';
              (r3, h3, e3) = Validate test_server h2 ''testuser'' ''asdf'' t3 t3'
          in r1 = Inr True \<and> probes e1 = 1 \<and>
             r2 = Inr False \<and> probes e2 = 1 \<and>
             r3 = Inr True \<and> probes e3 = 0 \<and>
             probes (e1 @ e2 @ e3) = 2)"
proof -
  from assms(1) have h0: "h0 = \<lparr>url = u, cache_m = None\<rparr>"
    by (simp add: NewHtpasswdProxy_def split: option.splits)
  let ?h1 = "\<lparr>url = u, cache_m = Some (fmupd (cache_key ''testuser'' ''asdf'') t1' fmempty)\<rparr>"
  have v1: "Validate test_server h0 ''testuser'' ''asdf'' t1 t1'
            = (Inr True, ?h1, [Probe u ''testuser'' ''asdf''])"
    using assms(2)
    by (simp add: h0 Validate_def cachedValidate_def putValidateCache_def test_server_def
        test_handler_testuser Let_def)
  have k: "cache_key ''testuser'' ''asdf'' \<noteq> cache_key ''notfound'' ''asdf''"
    by (simp add: cache_key_def)
  have v2: "Validate test_server ?h1 ''notfound'' ''asdf'' t2 t2'
            = (Inr False, ?h1, [Probe u ''notfound'' ''asdf''])"
    using assms(2,3) k
    by (simp add: Validate_def cachedValidate_def test_server_def test_handler_notfound
        len_singleton StatusOK_def StatusUnauthorized_def Let_def)
  have v3: "Validate test_server ?h1 ''testuser'' ''asdf'' t3 t3' = (Inr True, ?h1, [])"
    using assms(4)
    by (simp add: Validate_def cachedValidate_def len_singleton Let_def)
  show ?thesis
    by (simp add: v1 v2 v3 probes_def)
qed

text \<open>
  C6. The run of \<^verbatim>\<open>TestHtpasswdProxy\<close>, on a new proxy, with the first lookup at \<open>t1\<close>,
  the first \<^verbatim>\<open>put\<close> at \<open>t1'\<close>, and the third lookup at \<open>t3\<close>, less than a minute after
  \<open>t1'\<close>: true after one probe, false after one probe, true after no probe, two probes in
  all. And for every client, proxy and pair: after \<open>Validate\<close> returns false, a lookup of
  the pair at any later instant misses (a failure is not cached); after it returns true
  from a probe, the map holds the pair with the instant of the \<^verbatim>\<open>put\<close> (a success is
  cached).
\<close>

theorem Validate_caches_successes_only:
  "(NewHtpasswdProxy parse u = Inr h0 \<and> zero_time + minute \<le> t1 \<and> t1 \<le> t2 \<and> t3 < t1' + minute
      \<longrightarrow> (let (r1, h1, e1) = Validate test_server h0 ''testuser'' ''asdf'' t1 t1';
                (r2, h2, e2) = Validate test_server h1 ''notfound'' ''asdf'' t2 t2';
                (r3, h3, e3) = Validate test_server h2 ''testuser'' ''asdf'' t3 t3'
            in r1 = Inr True \<and> probes e1 = 1 \<and>
               r2 = Inr False \<and> probes e2 = 1 \<and>
               r3 = Inr True \<and> probes e3 = 0 \<and>
               probes (e1 @ e2 @ e3) = 2)) \<and>
   (fst (Validate client h user password now now') = Inr False \<and> now \<le> now2
      \<longrightarrow> \<not> fst (cachedValidate (fst (snd (Validate client h user password now now')))
                    user password now2)) \<and>
   (\<not> fst (cachedValidate h user password now) \<and>
    fst (Validate client h user password now now') = Inr True
      \<longrightarrow> (\<exists>m. cache_m (fst (snd (Validate client h user password now now'))) = Some m \<and>
               fmlookup m (cache_key user password) = Some now'))"
  using TestHtpasswdProxy_run [of parse u h0 t1 t2 t3 t1' t2' t3']
    Validate_failure_not_cached [of client h user password now now' now2]
    Validate_success_cached [of h user password now client now']
  by blast

theorem Validate_caches_successes_only_witness:
  "NewHtpasswdProxy (\<lambda>s. None) ''http://127.0.0.1:8080''
     = Inr \<lparr>url = ''http://127.0.0.1:8080'', cache_m = None\<rparr> \<and>
   zero_time + minute \<le> t0 \<and> t0 \<le> t0 + second \<and> t0 + 2 * second < t0 + minute \<and>
   (let (r1, h1, e1) = Validate test_server \<lparr>url = ''http://127.0.0.1:8080'', cache_m = None\<rparr>
                         ''testuser'' ''asdf'' t0 t0;
        (r2, h2, e2) = Validate test_server h1 ''notfound'' ''asdf'' (t0 + second) (t0 + second);
        (r3, h3, e3) = Validate test_server h2 ''testuser'' ''asdf'' (t0 + 2 * second) (t0 + 2 * second)
    in r1 = Inr True \<and> r2 = Inr False \<and> r3 = Inr True \<and> probes (e1 @ e2 @ e3) = 2) \<and>
   fst (Validate test_server \<lparr>url = ''http://127.0.0.1:8080'', cache_m = None\<rparr>
          ''notfound'' ''asdf'' t0 t0) = Inr False \<and>
   \<not> fst (cachedValidate
            (fst (snd (Validate test_server \<lparr>url = ''http://127.0.0.1:8080'', cache_m = None\<rparr>
                         ''notfound'' ''asdf'' t0 t0)))
            ''notfound'' ''asdf'' (t0 + second)) \<and>
   \<not> fst (cachedValidate \<lparr>url = ''http://127.0.0.1:8080'', cache_m = None\<rparr> ''testuser'' ''asdf'' t0) \<and>
   fst (Validate test_server \<lparr>url = ''http://127.0.0.1:8080'', cache_m = None\<rparr>
          ''testuser'' ''asdf'' t0 (t0 + second)) = Inr True \<and>
   (\<exists>m. cache_m (fst (snd (Validate test_server \<lparr>url = ''http://127.0.0.1:8080'', cache_m = None\<rparr>
                              ''testuser'' ''asdf'' t0 (t0 + second)))) = Some m \<and>
        fmlookup m (cache_key ''testuser'' ''asdf'') = Some (t0 + second))"
proof -
  let ?h = "\<lparr>url = ''http://127.0.0.1:8080'', cache_m = None\<rparr>"
  have a: "NewHtpasswdProxy (\<lambda>s. None) ''http://127.0.0.1:8080'' = Inr ?h"
    by (simp add: NewHtpasswdProxy_def)
  have c: "t0 \<le> t0 + second" by (simp add: second_def)
  have d: "t0 + 2 * second < t0 + minute" by (simp add: minute_def second_def)
  have miss: "\<And>user. \<not> fst (cachedValidate ?h user ''asdf'' t0)"
    using zero_time_expired by (simp add: cachedValidate_def Let_def)
  have f: "fst (Validate test_server ?h ''notfound'' ''asdf'' t0 t0) = Inr False"
    using miss [of "''notfound''"]
    by (intro Validate_not_OK [where status = StatusUnauthorized and err = None])
       (simp_all add: test_server_def test_handler_notfound StatusOK_def StatusUnauthorized_def)
  have g: "fst (Validate test_server ?h ''testuser'' ''asdf'' t0 (t0 + second)) = Inr True"
    using zero_time_expired
    by (simp add: Validate_def cachedValidate_def putValidateCache_def test_server_def
        test_handler_testuser Let_def)
  note scenario = Validate_caches_successes_only
      [of "\<lambda>s. None" "''http://127.0.0.1:8080''" ?h t0 "t0 + second" "t0 + 2 * second" t0
          "t0 + second" "t0 + 2 * second"
          test_server ?h "''notfound''" "''asdf''" t0 t0 "t0 + second"]
  note cached = Validate_caches_successes_only
      [of "\<lambda>s. None" "''http://127.0.0.1:8080''" ?h t0 "t0 + second" "t0 + 2 * second" t0
          "t0 + second" "t0 + 2 * second"
          test_server ?h "''testuser''" "''asdf''" t0 "t0 + second" "t0 + second"]
  from scenario a zero_time_expired c d f
  have s1: "(let (r1, h1, e1) = Validate test_server ?h ''testuser'' ''asdf'' t0 t0;
        (r2, h2, e2) = Validate test_server h1 ''notfound'' ''asdf'' (t0 + second) (t0 + second);
        (r3, h3, e3) = Validate test_server h2 ''testuser'' ''asdf'' (t0 + 2 * second) (t0 + 2 * second)
    in r1 = Inr True \<and> r2 = Inr False \<and> r3 = Inr True \<and> probes (e1 @ e2 @ e3) = 2)"
    and s2: "\<not> fst (cachedValidate (fst (snd (Validate test_server ?h ''notfound'' ''asdf'' t0 t0)))
            ''notfound'' ''asdf'' (t0 + second))"
    by (simp_all add: Let_def split: prod.splits)
  from cached miss [of "''testuser''"] g
  have s3: "\<exists>m. cache_m (fst (snd (Validate test_server ?h ''testuser'' ''asdf'' t0 (t0 + second)))) = Some m \<and>
        fmlookup m (cache_key ''testuser'' ''asdf'') = Some (t0 + second)"
    by blast
  from a zero_time_expired c d s1 f s2 miss [of "''testuser''"] g s3 show ?thesis
    by blast
qed

section \<open>Properties of the OAuth proxy\<close>

subsection \<open>Splitting at the first separator\<close>

lemma split_first_append: "c \<notin> set a \<Longrightarrow> split_first c (a @ c # b) = Some (a, b)"
  by (induction a) auto

lemma split_first_SomeD: "split_first c s = Some (a, b) \<Longrightarrow> s = a @ c # b \<and> c \<notin> set a"
proof (induction s arbitrary: a)
  case Nil
  then show ?case by simp
next
  case (Cons y ys)
  show ?case
  proof (cases "y = c")
    case True
    with Cons.prems show ?thesis by simp
  next
    case False
    with Cons.prems obtain a' where sp: "split_first c ys = Some (a', b)" and a: "a = y # a'"
      by (cases "split_first c ys") auto
    from Cons.IH [OF sp] False a show ?thesis by simp
  qed
qed

lemma split_first_Some_iff:
  "split_first c s = Some (a, b) \<longleftrightarrow> s = a @ c # b \<and> c \<notin> set a"
  using split_first_SomeD split_first_append by blast

lemma split_first_None_iff: "split_first c s = None \<longleftrightarrow> c \<notin> set s"
  by (induction s) (auto split: option.splits)

subsection \<open>The login URL\<close>

text \<open>The five parameters are always there, and \<open>state\<close> is there for a leading slash.\<close>

lemma login_params_fixed:
  "map_of (login_params p x host redirect) ''redirect_uri'' = Some (GetRedirectUrl p x host) \<and>
   map_of (login_params p x host redirect) ''approval_prompt'' = Some ''force'' \<and>
   map_of (login_params p x host redirect) ''scope'' = Some (oauthScope p) \<and>
   map_of (login_params p x host redirect) ''client_id'' = Some (clientID p) \<and>
   map_of (login_params p x host redirect) ''response_type'' = Some ''code''"
  by (simp add: login_params_def Values_Add_def Let_def)

lemma login_params_state:
  "map_of (login_params p x host redirect) ''state''
   = (if HasPrefix redirect ''/'' then Some redirect else None)"
  by (simp add: login_params_def Values_Add_def Let_def)

text \<open>
  C2. The return path \<^verbatim>\<open>//evil.example.com/\<close> (the \<^verbatim>\<open>rd\<close> value of a request for
  \<^verbatim>\<open>/oauth2/start\<close>) is not a path of this site, and \<open>GetLoginURL\<close> puts it in
  \<open>state\<close>, after the five fixed parameters.
\<close>

theorem GetLoginURL_state_foreign_host:
  "GetLoginURL p x host ''//evil.example.com/''
     = url_String x (oauthLoginUrl p) @ ''?'' @
       Values_Encode x
         [(''redirect_uri'', GetRedirectUrl p x host), (''approval_prompt'', ''force''),
          (''scope'', oauthScope p), (''client_id'', clientID p), (''response_type'', ''code''),
          (''state'', ''//evil.example.com/'')] \<and>
   \<not> spec_same_site_relative_path ''//evil.example.com/''"
  by (simp add: GetLoginURL_def login_params_def Values_Add_def HasPrefix_def
      spec_same_site_relative_path_def Let_def)

subsection \<open>The refresh threshold\<close>

lemma Unix_seconds: "Unix (n * second) = n"
  by (simp add: Unix_def second_def)

lemma Unix_add_seconds: "Unix (t + n * second) = Unix t + n"
  by (simp add: Unix_def second_def)

lemma ProcessCookie_valid:
  assumes "Cookies req (CookieKey p) = Some v"
    and "validateCookie x (CookieKey p, v) (CookieSeed p) = (val, timestamp, True)"
    and "parseCookieValue x val (AesCipher p) = (email, user, access_token, None)"
  shows "ProcessCookie p x req now now_cookie =
     (if CookieRefresh p \<noteq> 0 \<and> Unix (now + CookieRefresh p) > Unix (timestamp + CookieExpire p)
      then revalidate p x req val email user access_token now_cookie
      else ((email, user, access_token, True), []))"
  using assms by (simp add: ProcessCookie_def Let_def)

lemma revalidate_result:
  "revalidate p x req val email user access_token now_cookie =
     ((email, user, access_token,
       Validator p email \<and> ValidateToken (provider p) access_token),
      CallValidator email #
      (if Validator p email then [CallValidateToken access_token] else []) @
      (if Validator p email \<and> ValidateToken (provider p) access_token
       then SetCookie p x req val now_cookie else []))"
  by (simp add: revalidate_def)

lemma SetCookie_sets:
  "\<exists>c evs. SetCookie p x req val now_cookie = evs @ [http_SetCookie c] \<and>
            Name c = CookieKey p \<and>
            Value c = (if val = [] then [] else signedCookieValue x (CookieSeed p) (CookieKey p) val) \<and>
            Expires c = now_cookie + CookieExpire p"
  by (simp add: SetCookie_def MakeCookie_def Let_def)

lemma Unix_minus_second: "Unix (t - second) = Unix t - 1"
  using Unix_add_seconds [of t "- 1"] by simp

lemma Unix_plus_second: "Unix (t + second) = Unix t + 1"
  using Unix_add_seconds [of t 1] by simp

text \<open>
  C4, as stated, fails inside the second of the threshold. Expiry is a day and refresh
  an hour; the cookie was issued 23 hours before the second in which the clock now
  reads, and the clock is half a second into that second. Then
  \<open>now + CookieRefresh\<close> is after \<open>issuedAt + CookieExpire\<close>, and \<open>ProcessCookie\<close>
  does not revalidate: the two instants fall in the same second.
\<close>

theorem refresh_boundary_within_second:
  "CookieRefresh example_proxy \<noteq> 0 \<and>
   t0 + 500000000 + CookieRefresh example_proxy
     > (1446336000 - 86400 + 3600) * second + CookieExpire example_proxy \<and>
   Cookies (cookie_request ''boundary'') (CookieKey example_proxy) = Some ''boundary'' \<and>
   validateCookie boundary_externals (CookieKey example_proxy, ''boundary'')
       (CookieSeed example_proxy)
     = (''payload'', (1446336000 - 86400 + 3600) * second, True) \<and>
   parseCookieValue boundary_externals ''payload'' (AesCipher example_proxy)
     = (''user@example.com'', ''user'', ''token'', None) \<and>
   ProcessCookie example_proxy boundary_externals (cookie_request ''boundary'')
       (t0 + 500000000) t0
     = ((''user@example.com'', ''user'', ''token'', True), [])"
  by (simp add: ProcessCookie_def example_proxy_def boundary_externals_def example_externals_def
      cookie_request_def get_request_def Unix_def t0_def second_def Let_def)

text \<open>
  C4, amended. A request carries the session cookie, \<open>validateCookie\<close> accepts it with
  the timestamp \<open>timestamp\<close>, and \<open>parseCookieValue\<close> reads it without error. Then
  \<open>ProcessCookie\<close> revalidates exactly when \<open>CookieRefresh\<close> is not zero and the
  Unix second of \<open>now + CookieRefresh\<close> is greater than the Unix second of
  \<open>timestamp + CookieExpire\<close>. To revalidate is to call the \<open>Validator\<close> on the
  email, then, if it agrees, the provider's \<open>ValidateToken\<close> on the access token; the
  answer \<open>ok\<close> is that both agree, and the cookie is set again exactly when they do
  (a cookie of the proxy's name, signed, expiring \<open>CookieExpire\<close> from now). Otherwise
  \<open>ProcessCookie\<close> answers \<open>ok\<close> and calls nothing. A cookie issued one second
  before \<open>now - CookieExpire + CookieRefresh\<close> is revalidated, one issued one second
  after it is not. With \<open>E\<close>, \<open>R\<close> and \<open>issuedAt\<close> in whole seconds the test is
  \<open>Unix now + R > issuedAt + E\<close>. With \<open>CookieRefresh = 0\<close> nothing is
  revalidated.
\<close>

theorem ProcessCookie_refresh_threshold:
  assumes "Cookies req (CookieKey p) = Some v"
    and "validateCookie x (CookieKey p, v) (CookieSeed p) = (val, timestamp, True)"
    and "parseCookieValue x val (AesCipher p) = (email, user, access_token, None)"
  shows "(let revalidated =
                ((email, user, access_token,
                  Validator p email \<and> ValidateToken (provider p) access_token),
                 CallValidator email #
                 (if Validator p email then [CallValidateToken access_token] else []) @
                 (if Validator p email \<and> ValidateToken (provider p) access_token
                  then SetCookie p x req val now_cookie else []));
              honored = ((email, user, access_token, True), [])
          in ProcessCookie p x req now now_cookie =
               (if CookieRefresh p \<noteq> 0 \<and>
                   Unix (now + CookieRefresh p) > Unix (timestamp + CookieExpire p)
                then revalidated else honored) \<and>
             (CookieRefresh p \<noteq> 0 \<and>
              timestamp = now - CookieExpire p + CookieRefresh p - second \<longrightarrow>
                ProcessCookie p x req now now_cookie = revalidated) \<and>
             (timestamp = now - CookieExpire p + CookieRefresh p + second \<longrightarrow>
                ProcessCookie p x req now now_cookie = honored) \<and>
             (timestamp = issuedAt * second \<and> CookieExpire p = E * second \<and>
              CookieRefresh p = R * second \<longrightarrow>
                ProcessCookie p x req now now_cookie =
                  (if R \<noteq> 0 \<and> Unix now + R > issuedAt + E then revalidated else honored)) \<and>
             (CookieRefresh p = 0 \<longrightarrow> ProcessCookie p x req now now_cookie = honored)) \<and>
         (\<exists>c evs. SetCookie p x req val now_cookie = evs @ [http_SetCookie c] \<and>
                   Name c = CookieKey p \<and>
                   Value c = (if val = [] then []
                              else signedCookieValue x (CookieSeed p) (CookieKey p) val) \<and>
                   Expires c = now_cookie + CookieExpire p)"
proof -
  let ?revalidated = "((email, user, access_token,
                  Validator p email \<and> ValidateToken (provider p) access_token),
                 CallValidator email #
                 (if Validator p email then [CallValidateToken access_token] else []) @
                 (if Validator p email \<and> ValidateToken (provider p) access_token
                  then SetCookie p x req val now_cookie else []))"
  let ?honored = "((email, user, access_token, True), []::event list)"
  have main: "ProcessCookie p x req now now_cookie =
               (if CookieRefresh p \<noteq> 0 \<and>
                   Unix (now + CookieRefresh p) > Unix (timestamp + CookieExpire p)
                then ?revalidated else ?honored)"
    using ProcessCookie_valid [OF assms, of now now_cookie]
    by (simp only: revalidate_result)
  have before: "ProcessCookie p x req now now_cookie = ?revalidated"
    if "CookieRefresh p \<noteq> 0 \<and> timestamp = now - CookieExpire p + CookieRefresh p - second"
  proof -
    from that have "timestamp + CookieExpire p = now + CookieRefresh p - second" by simp
    then have "Unix (timestamp + CookieExpire p) = Unix (now + CookieRefresh p) - 1"
      by (simp add: Unix_minus_second)
    with that main show ?thesis by simp
  qed
  have after: "ProcessCookie p x req now now_cookie = ?honored"
    if "timestamp = now - CookieExpire p + CookieRefresh p + second"
  proof -
    from that have "timestamp + CookieExpire p = now + CookieRefresh p + second" by simp
    then have "Unix (timestamp + CookieExpire p) = Unix (now + CookieRefresh p) + 1"
      by (simp add: Unix_plus_second)
    with main show ?thesis by simp
  qed
  have secs: "ProcessCookie p x req now now_cookie =
                (if R \<noteq> 0 \<and> Unix now + R > issuedAt + E then ?revalidated else ?honored)"
    if h: "timestamp = issuedAt * second \<and> CookieExpire p = E * second \<and>
           CookieRefresh p = R * second"
  proof -
    have u1: "Unix (now + CookieRefresh p) = Unix now + R"
      using h by (simp add: Unix_add_seconds)
    have u2: "Unix (timestamp + CookieExpire p) = issuedAt + E"
      using h Unix_seconds [of "issuedAt + E"] by (simp add: algebra_simps)
    have r: "CookieRefresh p \<noteq> 0 \<longleftrightarrow> R \<noteq> 0"
      using h by (simp add: second_def)
    show ?thesis by (simp only: main u1 u2 r)
  qed
  have zero: "ProcessCookie p x req now now_cookie = ?honored" if "CookieRefresh p = 0"
    using that main by simp
  from main before after secs zero SetCookie_sets [of p x req val now_cookie]
  show ?thesis unfolding Let_def by blast
qed

lemma example_simps:
  "CookieKey example_proxy = ''_oauthproxy''"
  "compiledRegex example_proxy = [\<lambda>path. HasPrefix path ''/public/'']"
  by (simp_all add: example_proxy_def)

theorem ProcessCookie_refresh_threshold_witness:
  "Cookies (cookie_request ''stale'') (CookieKey example_proxy) = Some ''stale'' \<and>
   validateCookie example_externals (CookieKey example_proxy, ''stale'') (CookieSeed example_proxy)
     = (''payload'', (1446336000 - 86400 + 3600 - 1) * second, True) \<and>
   parseCookieValue example_externals ''payload'' (AesCipher example_proxy)
     = (''user@example.com'', ''user'', ''token'', None) \<and>
   CookieExpire example_proxy = 86400 * second \<and>
   CookieRefresh example_proxy = 3600 * second \<and>
   Unix (t0 + 500000000) = 1446336000 \<and>
   ProcessCookie example_proxy example_externals (cookie_request ''stale'') (t0 + 500000000) t0
     = ((''user@example.com'', ''user'', ''token'', True),
        [CallValidator ''user@example.com'', CallValidateToken ''token'',
         http_SetCookie \<lparr>Name = ''_oauthproxy'', Value = ''payload|signed'', Cookie_Path = ''/'',
                         Domain = ''proxy.example.com'', HttpOnly = True, Secure = True,
                         Expires = t0 + 86400 * second\<rparr>]) \<and>
   Cookies (cookie_request ''fresh'') (CookieKey example_proxy) = Some ''fresh'' \<and>
   validateCookie example_externals (CookieKey example_proxy, ''fresh'') (CookieSeed example_proxy)
     = (''payload'', (1446336000 - 86400 + 3600 + 1) * second, True) \<and>
   ProcessCookie example_proxy example_externals (cookie_request ''fresh'') (t0 + 500000000) t0
     = ((''user@example.com'', ''user'', ''token'', True), [])"
proof -
  have c1: "Cookies (cookie_request ''stale'') (CookieKey example_proxy) = Some ''stale''"
    and c2: "Cookies (cookie_request ''fresh'') (CookieKey example_proxy) = Some ''fresh''"
    by (simp_all add: cookie_request_def get_request_def example_simps)
  have v1: "validateCookie example_externals (CookieKey example_proxy, ''stale'')
              (CookieSeed example_proxy)
            = (''payload'', (1446336000 - 86400 + 3600 - 1) * second, True)"
    and v2: "validateCookie example_externals (CookieKey example_proxy, ''fresh'')
               (CookieSeed example_proxy)
             = (''payload'', (1446336000 - 86400 + 3600 + 1) * second, True)"
    by (simp_all add: example_externals_def)
  have pv: "parseCookieValue example_externals ''payload'' (AesCipher example_proxy)
            = (''user@example.com'', ''user'', ''token'', None)"
    by (simp add: example_externals_def)
  have e: "CookieExpire example_proxy = 86400 * second"
    and r: "CookieRefresh example_proxy = 3600 * second"
    by (simp_all add: example_proxy_def)
  have u: "Unix (t0 + 500000000) = 1446336000"
    by (simp add: Unix_def t0_def second_def)
  have secs1: "(1446336000 - 86400 + 3600 - 1) * second = (1446336000 - 86400 + 3600 - 1) * second \<and>
               CookieExpire example_proxy = 86400 * second \<and>
               CookieRefresh example_proxy = 3600 * second"
    and secs2: "(1446336000 - 86400 + 3600 + 1) * second = (1446336000 - 86400 + 3600 + 1) * second \<and>
               CookieExpire example_proxy = 86400 * second \<and>
               CookieRefresh example_proxy = 3600 * second"
    using e r by simp_all
  have before: "((3600::int) \<noteq> 0 \<and>
                 Unix (t0 + 500000000) + 3600 > 1446336000 - 86400 + 3600 - 1 + 86400) = True"
    and after: "((3600::int) \<noteq> 0 \<and>
                Unix (t0 + 500000000) + 3600 > 1446336000 - 86400 + 3600 + 1 + 86400) = False"
    by (simp_all add: u)
  have rv: "((''user@example.com'', ''user'', ''token'',
              Validator example_proxy ''user@example.com'' \<and>
              ValidateToken (provider example_proxy) ''token''),
             CallValidator ''user@example.com'' #
             (if Validator example_proxy ''user@example.com'' then [CallValidateToken ''token''] else []) @
             (if Validator example_proxy ''user@example.com'' \<and>
                 ValidateToken (provider example_proxy) ''token''
              then SetCookie example_proxy example_externals (cookie_request ''stale'') ''payload'' t0
              else []))
            = ((''user@example.com'', ''user'', ''token'', True),
               [CallValidator ''user@example.com'', CallValidateToken ''token'',
                http_SetCookie \<lparr>Name = ''_oauthproxy'', Value = ''payload|signed'',
                                Cookie_Path = ''/'', Domain = ''proxy.example.com'',
                                HttpOnly = True, Secure = True,
                                Expires = t0 + 86400 * second\<rparr>])"
    by (simp add: SetCookie_def MakeCookie_def example_proxy_def
        example_provider_def example_externals_def cookie_request_def get_request_def Let_def)
  note th1 = ProcessCookie_refresh_threshold [OF c1 v1 pv,
      where now = "t0 + 500000000" and now_cookie = t0
        and issuedAt = "1446336000 - 86400 + 3600 - 1" and E = 86400 and R = 3600,
      unfolded Let_def]
  note th2 = ProcessCookie_refresh_threshold [OF c2 v2 pv,
      where now = "t0 + 500000000" and now_cookie = t0
        and issuedAt = "1446336000 - 86400 + 3600 + 1" and E = 86400 and R = 3600,
      unfolded Let_def]
  from th1 secs1
  have "ProcessCookie example_proxy example_externals (cookie_request ''stale'')
             (t0 + 500000000) t0
        = (if (3600::int) \<noteq> 0 \<and> Unix (t0 + 500000000) + 3600 > 1446336000 - 86400 + 3600 - 1 + 86400
           then ((''user@example.com'', ''user'', ''token'',
              Validator example_proxy ''user@example.com'' \<and>
              ValidateToken (provider example_proxy) ''token''),
             CallValidator ''user@example.com'' #
             (if Validator example_proxy ''user@example.com'' then [CallValidateToken ''token''] else []) @
             (if Validator example_proxy ''user@example.com'' \<and>
                 ValidateToken (provider example_proxy) ''token''
              then SetCookie example_proxy example_externals (cookie_request ''stale'') ''payload'' t0
              else []))
           else ((''user@example.com'', ''user'', ''token'', True), []))"
    by blast
  then have s: "ProcessCookie example_proxy example_externals (cookie_request ''stale'')
             (t0 + 500000000) t0
           = ((''user@example.com'', ''user'', ''token'', True),
              [CallValidator ''user@example.com'', CallValidateToken ''token'',
               http_SetCookie \<lparr>Name = ''_oauthproxy'', Value = ''payload|signed'',
                               Cookie_Path = ''/'', Domain = ''proxy.example.com'',
                               HttpOnly = True, Secure = True,
                               Expires = t0 + 86400 * second\<rparr>])"
    by (simp only: rv before if_True)
  from th2 secs2
  have "ProcessCookie example_proxy example_externals (cookie_request ''fresh'')
             (t0 + 500000000) t0
        = (if (3600::int) \<noteq> 0 \<and> Unix (t0 + 500000000) + 3600 > 1446336000 - 86400 + 3600 + 1 + 86400
           then ((''user@example.com'', ''user'', ''token'',
              Validator example_proxy ''user@example.com'' \<and>
              ValidateToken (provider example_proxy) ''token''),
             CallValidator ''user@example.com'' #
             (if Validator example_proxy ''user@example.com'' then [CallValidateToken ''token''] else []) @
             (if Validator example_proxy ''user@example.com'' \<and>
                 ValidateToken (provider example_proxy) ''token''
              then SetCookie example_proxy example_externals (cookie_request ''fresh'') ''payload'' t0
              else []))
           else ((''user@example.com'', ''user'', ''token'', True), []))"
    by blast
  then have f: "ProcessCookie example_proxy example_externals (cookie_request ''fresh'')
             (t0 + 500000000) t0
           = ((''user@example.com'', ''user'', ''token'', True), [])"
    by (simp only: after if_False)
  from c1 v1 pv e r u s c2 v2 f show ?thesis by blast
qed

subsection \<open>Basic authentication\<close>

lemma CheckBasicAuth_unfold:
  "CheckBasicAuth p x req =
     (case HtpasswdValidator p of
        None \<Rightarrow> (([], False), [])
      | Some validate \<Rightarrow>
          (case split_first CHR '' '' (Header_Get req ''Authorization'') of
             None \<Rightarrow> (([], False), [])
           | Some (a, s) \<Rightarrow>
               if a \<noteq> ''Basic'' then (([], False), [])
               else (case DecodeString x s of
                       None \<Rightarrow> (([], False), [])
                     | Some b \<Rightarrow>
                         (case split_first CHR '':'' b of
                            None \<Rightarrow> (([], False), [])
                          | Some (u, pw) \<Rightarrow>
                              if validate u pw then
                                ((u, True),
                                 [CallHtpasswdValidator u pw,
                                  Printf ''authenticated %q via basic auth'' [S u]])
                              else (([], False), [CallHtpasswdValidator u pw])))))"
  by (simp add: CheckBasicAuth_def SplitN2_def Let_def split: option.splits)

lemma well_formed_basic_split:
  "well_formed_basic x req u pw \<longleftrightarrow>
     (\<exists>s b. split_first CHR '' '' (Header_Get req ''Authorization'') = Some (''Basic'', s) \<and>
            DecodeString x s = Some b \<and> split_first CHR '':'' b = Some (u, pw))"
  by (auto simp: well_formed_basic_def split_first_Some_iff)

text \<open>
  C10. When a validator is configured and the header is \<^verbatim>\<open>Basic\<close>, a space and base64
  text of \<open>u\<close>, a colon and \<open>pw\<close> (\<open>u\<close> without a colon, \<open>pw\<close> any text), \<open>CheckBasicAuth\<close>
  calls the validator once, with \<open>u\<close> and \<open>pw\<close>; it returns \<open>u\<close> and true (and logs)
  when the validator accepts, and the empty user and false, with nothing else done, when
  it refuses. The validator is called on such a header only. Without a validator, or
  with any other header, the result is the empty user and false, and nothing is done.
\<close>

theorem CheckBasicAuth_cases:
  "(HtpasswdValidator p = Some validate \<and> well_formed_basic x req u pw \<longrightarrow>
      CheckBasicAuth p x req =
        (if validate u pw
         then ((u, True),
               [CallHtpasswdValidator u pw, Printf ''authenticated %q via basic auth'' [S u]])
         else (([], False), [CallHtpasswdValidator u pw]))) \<and>
   (CallHtpasswdValidator u pw \<in> set (snd (CheckBasicAuth p x req)) \<longrightarrow>
      HtpasswdValidator p \<noteq> None \<and> well_formed_basic x req u pw) \<and>
   (HtpasswdValidator p = None \<or> (\<forall>u pw. \<not> well_formed_basic x req u pw) \<longrightarrow>
      CheckBasicAuth p x req = (([], False), []))"
proof (intro conjI impI)
  assume "HtpasswdValidator p = Some validate \<and> well_formed_basic x req u pw"
  then show "CheckBasicAuth p x req =
        (if validate u pw
         then ((u, True),
               [CallHtpasswdValidator u pw, Printf ''authenticated %q via basic auth'' [S u]])
         else (([], False), [CallHtpasswdValidator u pw]))"
    by (auto simp: CheckBasicAuth_unfold well_formed_basic_split)
next
  assume "CallHtpasswdValidator u pw \<in> set (snd (CheckBasicAuth p x req))"
  then show "HtpasswdValidator p \<noteq> None"
    by (auto simp: CheckBasicAuth_unfold split: option.splits)
next
  assume "CallHtpasswdValidator u pw \<in> set (snd (CheckBasicAuth p x req))"
  then show "well_formed_basic x req u pw"
    unfolding well_formed_basic_split
    by (auto simp: CheckBasicAuth_unfold split: option.splits if_splits)
next
  assume "HtpasswdValidator p = None \<or> (\<forall>u pw. \<not> well_formed_basic x req u pw)"
  then show "CheckBasicAuth p x req = (([], False), [])"
    unfolding well_formed_basic_split
    by (auto simp: CheckBasicAuth_unfold split: option.splits if_splits)
qed

theorem CheckBasicAuth_cases_witness:
  "HtpasswdValidator example_proxy
     = Some (\<lambda>user password. user = ''testuser'' \<and> password = ''asdf'') \<and>
   well_formed_basic example_externals basic_request ''testuser'' ''asdf'' \<and>
   CheckBasicAuth example_proxy example_externals basic_request
     = ((''testuser'', True),
        [CallHtpasswdValidator ''testuser'' ''asdf'',
         Printf ''authenticated %q via basic auth'' [S ''testuser'']]) \<and>
   well_formed_basic example_externals colon_request ''u'' ''p:q'' \<and>
   CheckBasicAuth example_proxy example_externals colon_request
     = (([], False), [CallHtpasswdValidator ''u'' ''p:q'']) \<and>
   (\<forall>u pw. \<not> well_formed_basic example_externals (get_request ''/app'') u pw) \<and>
   CheckBasicAuth example_proxy example_externals (get_request ''/app'') = (([], False), [])"
proof -
  have v: "HtpasswdValidator example_proxy
             = Some (\<lambda>user password. user = ''testuser'' \<and> password = ''asdf'')"
    by (simp add: example_proxy_def)
  have w1: "well_formed_basic example_externals basic_request ''testuser'' ''asdf''"
    unfolding well_formed_basic_def
    by (rule exI [of _ "''dGVzdHVzZXI6YXNkZg==''"])
       (simp add: basic_request_def get_request_def Header_Get_def example_externals_def)
  have w2: "well_formed_basic example_externals colon_request ''u'' ''p:q''"
    unfolding well_formed_basic_def
    by (rule exI [of _ "''dTpwOnE=''"])
       (simp add: colon_request_def get_request_def Header_Get_def example_externals_def)
  have w3: "\<forall>u pw. \<not> well_formed_basic example_externals (get_request ''/app'') u pw"
    by (simp add: well_formed_basic_def get_request_def Header_Get_def)
  from CheckBasicAuth_cases [of example_proxy _ example_externals basic_request
      "''testuser''" "''asdf''"] v w1
  have r1: "CheckBasicAuth example_proxy example_externals basic_request
     = ((''testuser'', True),
        [CallHtpasswdValidator ''testuser'' ''asdf'',
         Printf ''authenticated %q via basic auth'' [S ''testuser'']])"
    by simp
  from CheckBasicAuth_cases [of example_proxy _ example_externals colon_request
      "''u''" "''p:q''"] v w2
  have r2: "CheckBasicAuth example_proxy example_externals colon_request
     = (([], False), [CallHtpasswdValidator ''u'' ''p:q''])"
    by simp
  from CheckBasicAuth_cases [of example_proxy _ example_externals "get_request ''/app''"] w3
  have r3: "CheckBasicAuth example_proxy example_externals (get_request ''/app'')
            = (([], False), [])"
    by simp
  from v w1 r1 w2 r2 w3 r3 show ?thesis by simp
qed

subsection \<open>The handler\<close>

lemma Itoa_403: "Itoa 403 = ''403''"
  by (simp add: Itoa.simps)

lemma paths_distinct:
  "robotsPath \<noteq> pingPath" "signInPath \<noteq> robotsPath" "signInPath \<noteq> pingPath"
  "oauthStartPath \<noteq> robotsPath" "oauthStartPath \<noteq> pingPath" "oauthStartPath \<noteq> signInPath"
  "oauthCallbackPath \<noteq> robotsPath" "oauthCallbackPath \<noteq> pingPath"
  "oauthCallbackPath \<noteq> signInPath" "oauthCallbackPath \<noteq> oauthStartPath"
  by (simp_all add: robotsPath_def pingPath_def signInPath_def oauthStartPath_def oauthCallbackPath_def)

lemma ServeHTTP_protected:
  assumes "URL_Path req \<notin> {robotsPath, pingPath, signInPath, oauthStartPath, oauthCallbackPath}"
    and "\<not> skip_auth (compiledRegex p) (URL_Path req)"
    and "ProcessCookie p x req now now_cookie = ((email, user0, access_token, ok1), evs1)"
    and "(if ok1 then ((user0, True), []) else CheckBasicAuth p x req) = ((user, ok), evs2)"
  shows "ServeHTTP p x req now now_cookie =
           (if ok then evs1 @ evs2 @ proxy_normally p x req user email access_token
            else evs1 @ evs2 @ SignInPage p x req 403 now_cookie)"
proof (cases ok1)
  case True
  with assms(4) have "user = user0" "ok" "evs2 = []" by simp_all
  with assms(1,2,3) True show ?thesis by (simp add: ServeHTTP_def Let_def)
next
  case False
  with assms(4) have "CheckBasicAuth p x req = ((user, ok), evs2)" by simp
  with assms(1,2,3) False show ?thesis by (simp add: ServeHTTP_def Let_def)
qed

lemma ErrorPage_no_redeem: "CallRedeem uri code \<notin> set (ErrorPage c title message)"
  by (simp add: ErrorPage_def)

lemma Itoa_500: "Itoa 500 = ''500''"
  by (simp add: Itoa.simps)

text \<open>
  C3, as stated, fails when the form of the callback does not parse: the request
  carries a non-empty \<^verbatim>\<open>error\<close> value, and the answer is the 500 error page, not the
  403 one.
\<close>

theorem callback_error_with_bad_form:
  "URL_Path unparsed_callback = oauthCallbackPath \<and>
   Form unparsed_callback ''error'' = ''access_denied'' \<and>
   ServeHTTP example_proxy example_externals unparsed_callback t0 t0
     = [Printf ''ErrorPage %d %s %s'' [N 500, S ''Internal Error'', S ''invalid URL escape''],
        WriteHeader 500,
        ExecuteTemplate ''error.html'' (ErrorData ''500 Internal Error'' ''invalid URL escape'')]"
  by (simp add: ServeHTTP_def serve_oauth_callback_def ErrorPage_def Itoa_500 example_simps
      unparsed_callback_def denied_callback_def get_request_def HasPrefix_def robotsPath_def
      pingPath_def signInPath_def oauthStartPath_def oauthCallbackPath_def Let_def)

text \<open>
  C3, amended. The order of \<open>ServeHTTP\<close>. A request for \<^verbatim>\<open>/robots.txt\<close> or
  \<^verbatim>\<open>/ping\<close> gets that page. Any other request whose path matches a skip-auth pattern
  goes to the upstream handler as it came, and nothing else happens: no cookie, validator
  or provider is consulted. Of the remaining requests, those for the sign-in, start and
  callback paths are served by the block of that path. On the callback path a form that
  does not parse gets the 500 error page; a parsed form with a non-empty \<^verbatim>\<open>error\<close>
  value gets the 403 error page; and no run on that path with such a value calls
  \<^verbatim>\<open>Redeem\<close>. Every other request goes through the session cookie first; Basic
  authentication is checked when the cookie did not authenticate, and only then; the
  request is forwarded when either succeeded and gets the sign-in page with status 403
  when neither did.
\<close>

theorem ServeHTTP_precedence:
  "(URL_Path req = robotsPath \<longrightarrow> ServeHTTP p x req now now_cookie = RobotsTxt) \<and>
   (URL_Path req = pingPath \<longrightarrow> ServeHTTP p x req now now_cookie = PingPage) \<and>
   (URL_Path req \<notin> {robotsPath, pingPath} \<and> skip_auth (compiledRegex p) (URL_Path req) \<longrightarrow>
      ServeHTTP p x req now now_cookie = [ServeMux req]) \<and>
   (\<not> skip_auth (compiledRegex p) (URL_Path req) \<and> URL_Path req = signInPath \<longrightarrow>
      ServeHTTP p x req now now_cookie = serve_sign_in p x req now_cookie) \<and>
   (\<not> skip_auth (compiledRegex p) (URL_Path req) \<and> URL_Path req = oauthStartPath \<longrightarrow>
      ServeHTTP p x req now now_cookie = serve_oauth_start p x req) \<and>
   (\<not> skip_auth (compiledRegex p) (URL_Path req) \<and> URL_Path req = oauthCallbackPath \<longrightarrow>
      (\<exists>remoteAddr. ServeHTTP p x req now now_cookie
                      = serve_oauth_callback p x req remoteAddr now_cookie)) \<and>
   (\<not> skip_auth (compiledRegex p) (URL_Path req) \<and> URL_Path req = oauthCallbackPath \<and>
    ParseForm req = Some err \<longrightarrow>
      ServeHTTP p x req now now_cookie = ErrorPage 500 ''Internal Error'' err) \<and>
   (\<not> skip_auth (compiledRegex p) (URL_Path req) \<and> URL_Path req = oauthCallbackPath \<and>
    ParseForm req = None \<and> Form req ''error'' \<noteq> [] \<longrightarrow>
      ServeHTTP p x req now now_cookie = ErrorPage 403 ''Permission Denied'' (Form req ''error'')) \<and>
   (URL_Path req = oauthCallbackPath \<and> Form req ''error'' \<noteq> [] \<longrightarrow>
      (\<forall>uri code. CallRedeem uri code \<notin> set (ServeHTTP p x req now now_cookie))) \<and>
   (URL_Path req \<notin> {robotsPath, pingPath, signInPath, oauthStartPath, oauthCallbackPath} \<and>
    \<not> skip_auth (compiledRegex p) (URL_Path req) \<longrightarrow>
      (case ProcessCookie p x req now now_cookie of
         ((email, user0, access_token, ok1), evs1) \<Rightarrow>
           if ok1 then
             ServeHTTP p x req now now_cookie
               = evs1 @ proxy_normally p x req user0 email access_token
           else
             (case CheckBasicAuth p x req of
                ((user, ok2), evs2) \<Rightarrow>
                  if ok2 then
                    ServeHTTP p x req now now_cookie
                      = evs1 @ evs2 @ proxy_normally p x req user email access_token
                  else
                    ServeHTTP p x req now now_cookie
                      = evs1 @ evs2 @ SignInPage p x req 403 now_cookie)))"
proof (intro conjI impI)
  show "ServeHTTP p x req now now_cookie = RobotsTxt" if "URL_Path req = robotsPath"
    using that by (simp add: ServeHTTP_def)
  show "ServeHTTP p x req now now_cookie = PingPage" if "URL_Path req = pingPath"
    using that paths_distinct by (auto simp: ServeHTTP_def)
  show "ServeHTTP p x req now now_cookie = [ServeMux req]"
    if "URL_Path req \<notin> {robotsPath, pingPath} \<and> skip_auth (compiledRegex p) (URL_Path req)"
    using that by (auto simp: ServeHTTP_def)
  show "ServeHTTP p x req now now_cookie = serve_sign_in p x req now_cookie"
    if "\<not> skip_auth (compiledRegex p) (URL_Path req) \<and> URL_Path req = signInPath"
    using that paths_distinct by (auto simp: ServeHTTP_def)
  show "ServeHTTP p x req now now_cookie = serve_oauth_start p x req"
    if "\<not> skip_auth (compiledRegex p) (URL_Path req) \<and> URL_Path req = oauthStartPath"
    using that paths_distinct by (auto simp: ServeHTTP_def)
  show "\<exists>remoteAddr. ServeHTTP p x req now now_cookie
                       = serve_oauth_callback p x req remoteAddr now_cookie"
    if "\<not> skip_auth (compiledRegex p) (URL_Path req) \<and> URL_Path req = oauthCallbackPath"
    using that paths_distinct by (auto simp: ServeHTTP_def Let_def)
  show "ServeHTTP p x req now now_cookie = ErrorPage 500 ''Internal Error'' err"
    if "\<not> skip_auth (compiledRegex p) (URL_Path req) \<and> URL_Path req = oauthCallbackPath \<and>
        ParseForm req = Some err"
    using that paths_distinct by (auto simp: ServeHTTP_def serve_oauth_callback_def Let_def)
  show "ServeHTTP p x req now now_cookie = ErrorPage 403 ''Permission Denied'' (Form req ''error'')"
    if "\<not> skip_auth (compiledRegex p) (URL_Path req) \<and> URL_Path req = oauthCallbackPath \<and>
        ParseForm req = None \<and> Form req ''error'' \<noteq> []"
    using that paths_distinct by (auto simp: ServeHTTP_def serve_oauth_callback_def Let_def)
  show "\<forall>uri code. CallRedeem uri code \<notin> set (ServeHTTP p x req now now_cookie)"
    if "URL_Path req = oauthCallbackPath \<and> Form req ''error'' \<noteq> []"
    using that paths_distinct
    by (auto simp: ServeHTTP_def serve_oauth_callback_def ErrorPage_no_redeem Let_def
        split: option.splits)
  show "case ProcessCookie p x req now now_cookie of
         ((email, user0, access_token, ok1), evs1) \<Rightarrow>
           if ok1 then
             ServeHTTP p x req now now_cookie
               = evs1 @ proxy_normally p x req user0 email access_token
           else
             (case CheckBasicAuth p x req of
                ((user, ok2), evs2) \<Rightarrow>
                  if ok2 then
                    ServeHTTP p x req now now_cookie
                      = evs1 @ evs2 @ proxy_normally p x req user email access_token
                  else
                    ServeHTTP p x req now now_cookie
                      = evs1 @ evs2 @ SignInPage p x req 403 now_cookie)"
    if h: "URL_Path req \<notin> {robotsPath, pingPath, signInPath, oauthStartPath, oauthCallbackPath} \<and>
           \<not> skip_auth (compiledRegex p) (URL_Path req)"
  proof -
    obtain email user0 access_token ok1 evs1
      where pc: "ProcessCookie p x req now now_cookie = ((email, user0, access_token, ok1), evs1)"
      by (metis prod.exhaust)
    obtain user ok2 evs2 where cb: "CheckBasicAuth p x req = ((user, ok2), evs2)"
      by (metis prod.exhaust)
    show ?thesis
    proof (cases ok1)
      case True
      from ServeHTTP_protected [of req p x now now_cookie email user0 access_token ok1 evs1 user0 True "[]"]
        h pc True
      show ?thesis by simp
    next
      case False
      from ServeHTTP_protected [of req p x now now_cookie email user0 access_token ok1 evs1 user ok2 evs2]
        h pc cb False
      show ?thesis by simp
    qed
  qed
qed

theorem ServeHTTP_precedence_witness:
  "URL_Path (get_request ''/public/logo.png'') \<notin> {robotsPath, pingPath} \<and>
   skip_auth (compiledRegex example_proxy) (URL_Path (get_request ''/public/logo.png'')) \<and>
   ServeHTTP example_proxy example_externals (get_request ''/public/logo.png'') t0 t0
     = [ServeMux (get_request ''/public/logo.png'')] \<and>
   \<not> skip_auth (compiledRegex example_proxy) (URL_Path denied_callback) \<and>
   URL_Path denied_callback = oauthCallbackPath \<and>
   ParseForm denied_callback = None \<and>
   Form denied_callback ''error'' \<noteq> [] \<and>
   ServeHTTP example_proxy example_externals denied_callback t0 t0
     = [Printf ''ErrorPage %d %s %s'' [N 403, S ''Permission Denied'', S ''access_denied''],
        WriteHeader 403,
        ExecuteTemplate ''error.html'' (ErrorData ''403 Permission Denied'' ''access_denied'')]"
proof -
  have a: "URL_Path (get_request ''/public/logo.png'') \<notin> {robotsPath, pingPath}"
    by (simp add: get_request_def robotsPath_def pingPath_def)
  have b: "skip_auth (compiledRegex example_proxy) (URL_Path (get_request ''/public/logo.png''))"
    by (simp add: example_simps get_request_def HasPrefix_def)
  have c: "\<not> skip_auth (compiledRegex example_proxy) (URL_Path denied_callback)"
    by (simp add: example_simps denied_callback_def get_request_def HasPrefix_def)
  have d: "URL_Path denied_callback = oauthCallbackPath"
    by (simp add: denied_callback_def get_request_def oauthCallbackPath_def)
  have e: "ParseForm denied_callback = None" "Form denied_callback ''error'' = ''access_denied''"
    by (simp_all add: denied_callback_def get_request_def)
  from ServeHTTP_precedence [of "get_request ''/public/logo.png''" example_proxy example_externals t0 t0] a b
  have r1: "ServeHTTP example_proxy example_externals (get_request ''/public/logo.png'') t0 t0
            = [ServeMux (get_request ''/public/logo.png'')]"
    by blast
  from ServeHTTP_precedence [of denied_callback example_proxy example_externals t0 t0] c d e
  have "ServeHTTP example_proxy example_externals denied_callback t0 t0
          = ErrorPage 403 ''Permission Denied'' (Form denied_callback ''error'')"
    by simp
  then have r2: "ServeHTTP example_proxy example_externals denied_callback t0 t0
     = [Printf ''ErrorPage %d %s %s'' [N 403, S ''Permission Denied'', S ''access_denied''],
        WriteHeader 403,
        ExecuteTemplate ''error.html'' (ErrorData ''403 Permission Denied'' ''access_denied'')]"
    by (simp add: e ErrorPage_def Itoa_403)
  from a b c d e r1 r2 show ?thesis by simp
qed

text \<open>
  C7, as stated, fails: with \<^verbatim>\<open>PassBasicAuth\<close> and \<^verbatim>\<open>PassAccessToken\<close> off, a
  request that Basic authentication lets through is forwarded as it came, without any
  of the three identity headers.
\<close>

theorem basic_auth_forward_without_headers:
  "ServeHTTP example_proxy example_externals basic_request t0 t0 =
     [Printf ''http: named cookie not present'' [],
      CallHtpasswdValidator ''testuser'' ''asdf'',
      Printf ''authenticated %q via basic auth'' [S ''testuser''],
      SetHeader ''GAP-Auth'' ''testuser'',
      ServeMux basic_request] \<and>
   Header basic_request ''X-Forwarded-User'' = None \<and>
   Header basic_request ''X-Forwarded-Email'' = None \<and>
   Header basic_request ''X-Forwarded-Access-Token'' = None"
  by (simp add: ServeHTTP_def ProcessCookie_def CheckBasicAuth_def proxy_normally_def
      example_proxy_def example_externals_def basic_request_def get_request_def Header_Get_def
      SplitN2_def robotsPath_def pingPath_def signInPath_def oauthStartPath_def
      oauthCallbackPath_def HasPrefix_def Let_def)

text \<open>
  C7, amended. A request that reaches the forwarding block (the cookie authenticated
  it, or else Basic authentication did) is answered with the header \<^verbatim>\<open>GAP-Auth\<close>,
  whose value is the email when the email is not empty and the user otherwise, and is
  then handed to the upstream handler. The forwarded request carries
  \<^verbatim>\<open>X-Forwarded-User\<close>, \<^verbatim>\<open>X-Forwarded-Email\<close> and a Basic \<^verbatim>\<open>Authorization\<close> for the
  user when \<^verbatim>\<open>PassBasicAuth\<close> is set, and \<^verbatim>\<open>X-Forwarded-Access-Token\<close> when
  \<^verbatim>\<open>PassAccessToken\<close> is set; a header whose option is off stays as the client sent it.
\<close>

theorem ServeHTTP_forward_headers:
  assumes "URL_Path req \<notin> {robotsPath, pingPath, signInPath, oauthStartPath, oauthCallbackPath}"
    and "\<not> skip_auth (compiledRegex p) (URL_Path req)"
    and "ProcessCookie p x req now now_cookie = ((email, user0, access_token, ok1), evs1)"
    and "(if ok1 then ((user0, True), []) else CheckBasicAuth p x req) = ((user, True), evs2)"
  shows "\<exists>fwd. ServeHTTP p x req now now_cookie
                 = evs1 @ evs2 @ [SetHeader ''GAP-Auth'' (if email = [] then user else email),
                                  ServeMux fwd] \<and>
           (if PassBasicAuth p
            then Header fwd ''X-Forwarded-User'' = Some [user] \<and>
                 Header fwd ''X-Forwarded-Email'' = Some [email] \<and>
                 Header fwd ''Authorization'' = Some [''Basic '' @ EncodeToString x (user @ '':'')]
            else Header fwd ''X-Forwarded-User'' = Header req ''X-Forwarded-User'' \<and>
                 Header fwd ''X-Forwarded-Email'' = Header req ''X-Forwarded-Email'' \<and>
                 Header fwd ''Authorization'' = Header req ''Authorization'') \<and>
           (if PassAccessToken p
            then Header fwd ''X-Forwarded-Access-Token'' = Some [access_token]
            else Header fwd ''X-Forwarded-Access-Token'' = Header req ''X-Forwarded-Access-Token'')"
proof -
  have "ServeHTTP p x req now now_cookie
          = evs1 @ evs2 @ proxy_normally p x req user email access_token"
    using ServeHTTP_protected [OF assms] by simp
  then show ?thesis
    by (auto simp: proxy_normally_def SetBasicAuth_def Let_def)
qed

theorem ServeHTTP_forward_headers_witness:
  "URL_Path (cookie_request ''fresh'')
     \<notin> {robotsPath, pingPath, signInPath, oauthStartPath, oauthCallbackPath} \<and>
   \<not> skip_auth (compiledRegex pass_proxy) (URL_Path (cookie_request ''fresh'')) \<and>
   ProcessCookie pass_proxy example_externals (cookie_request ''fresh'') t0 t0
     = ((''user@example.com'', ''user'', ''token'', True), []) \<and>
   (\<exists>fwd. ServeHTTP pass_proxy example_externals (cookie_request ''fresh'') t0 t0
            = [SetHeader ''GAP-Auth'' ''user@example.com'', ServeMux fwd] \<and>
          Header fwd ''X-Forwarded-User'' = Some [''user''] \<and>
          Header fwd ''X-Forwarded-Email'' = Some [''user@example.com''] \<and>
          Header fwd ''Authorization'' = Some [''Basic dXNlcjo=''] \<and>
          Header fwd ''X-Forwarded-Access-Token'' = Some [''token''])"
proof -
  have a: "URL_Path (cookie_request ''fresh'')
             \<notin> {robotsPath, pingPath, signInPath, oauthStartPath, oauthCallbackPath}"
    by (simp add: cookie_request_def get_request_def robotsPath_def pingPath_def signInPath_def
        oauthStartPath_def oauthCallbackPath_def)
  have b: "\<not> skip_auth (compiledRegex pass_proxy) (URL_Path (cookie_request ''fresh''))"
    by (simp add: pass_proxy_def example_simps cookie_request_def get_request_def HasPrefix_def)
  have c: "ProcessCookie pass_proxy example_externals (cookie_request ''fresh'') t0 t0
             = ((''user@example.com'', ''user'', ''token'', True), [])"
    by (simp add: ProcessCookie_def pass_proxy_def example_proxy_def example_externals_def
        cookie_request_def get_request_def Unix_def t0_def second_def Let_def)
  have d: "(if True then ((''user'', True), [])
            else CheckBasicAuth pass_proxy example_externals (cookie_request ''fresh''))
           = ((''user'', True), [])"
    by simp
  from ServeHTTP_forward_headers [OF a b c d] a b c show ?thesis
    by (simp add: pass_proxy_def example_proxy_def example_externals_def)
qed

lemma list_ex_ErrorPage: "list_ex is_response (ErrorPage c title message)"
  by (simp add: ErrorPage_def)

lemma list_ex_SignInPage: "list_ex is_response (SignInPage p x req c now)"
  by (simp add: SignInPage_def)

lemma list_ex_proxy_normally: "list_ex is_response (proxy_normally p x req user email token)"
  by (simp add: proxy_normally_def Let_def)

lemma list_ex_serve_sign_in: "list_ex is_response (serve_sign_in p x req now)"
  by (simp add: serve_sign_in_def list_ex_ErrorPage list_ex_SignInPage
      split: sum.splits prod.splits)

lemma list_ex_serve_oauth_start: "list_ex is_response (serve_oauth_start p x req)"
  by (simp add: serve_oauth_start_def list_ex_ErrorPage split: sum.splits)

lemma list_ex_serve_oauth_callback: "list_ex is_response (serve_oauth_callback p x req ra now)"
  by (simp add: serve_oauth_callback_def list_ex_ErrorPage Let_def
      split: option.splits sum.splits prod.splits)

lemma ServeHTTP_responds: "list_ex is_response (ServeHTTP p x req now now_cookie)"
  by (simp add: ServeHTTP_def RobotsTxt_def PingPage_def list_ex_serve_sign_in
      list_ex_serve_oauth_start list_ex_serve_oauth_callback list_ex_SignInPage
      list_ex_proxy_normally Let_def split: prod.splits)

text \<open>
  C8. A request that falls through to the session check, whose cookie does not
  authenticate it and whose Basic authentication does not either, gets the sign-in page
  with status 403: the cookie is cleared, the status written, the template rendered. And
  every run of \<open>ServeHTTP\<close>, whatever the request, answers: it writes a status,
  redirects, or hands the request to the upstream handler.
\<close>

theorem ServeHTTP_denied:
  "(URL_Path req \<notin> {robotsPath, pingPath, signInPath, oauthStartPath, oauthCallbackPath} \<and>
    \<not> skip_auth (compiledRegex p) (URL_Path req) \<and>
    ProcessCookie p x req now now_cookie = ((email, user0, access_token, False), evs1) \<and>
    CheckBasicAuth p x req = ((user, False), evs2) \<longrightarrow>
      ServeHTTP p x req now now_cookie
        = evs1 @ evs2 @ ClearCookie p x req now_cookie @
          [WriteHeader 403,
           ExecuteTemplate ''sign_in.html''
             (SignInData (ProviderName (provider p)) (SignInMessage p) (displayCustomLoginForm p)
                (if RequestURI req = signInPath then ''/'' else RequestURI req) (VERSION x))]) \<and>
   list_ex is_response (ServeHTTP p x req now now_cookie)"
proof (intro conjI impI)
  assume h: "URL_Path req \<notin> {robotsPath, pingPath, signInPath, oauthStartPath, oauthCallbackPath} \<and>
    \<not> skip_auth (compiledRegex p) (URL_Path req) \<and>
    ProcessCookie p x req now now_cookie = ((email, user0, access_token, False), evs1) \<and>
    CheckBasicAuth p x req = ((user, False), evs2)"
  from ServeHTTP_protected [of req p x now now_cookie email user0 access_token False evs1 user False evs2] h
  show "ServeHTTP p x req now now_cookie
        = evs1 @ evs2 @ ClearCookie p x req now_cookie @
          [WriteHeader 403,
           ExecuteTemplate ''sign_in.html''
             (SignInData (ProviderName (provider p)) (SignInMessage p) (displayCustomLoginForm p)
                (if RequestURI req = signInPath then ''/'' else RequestURI req) (VERSION x))]"
    by (simp add: SignInPage_def)
next
  show "list_ex is_response (ServeHTTP p x req now now_cookie)"
    by (rule ServeHTTP_responds)
qed

theorem ServeHTTP_denied_witness:
  "URL_Path (get_request ''/app'')
     \<notin> {robotsPath, pingPath, signInPath, oauthStartPath, oauthCallbackPath} \<and>
   \<not> skip_auth (compiledRegex example_proxy) (URL_Path (get_request ''/app'')) \<and>
   ProcessCookie example_proxy example_externals (get_request ''/app'') t0 t0
     = (([], [], [], False), [Printf ''http: named cookie not present'' []]) \<and>
   CheckBasicAuth example_proxy example_externals (get_request ''/app'') = (([], False), []) \<and>
   ServeHTTP example_proxy example_externals (get_request ''/app'') t0 t0
     = [Printf ''http: named cookie not present'' [],
        http_SetCookie \<lparr>Name = ''_oauthproxy'', Value = [], Cookie_Path = ''/'',
                        Domain = ''proxy.example.com'', HttpOnly = True, Secure = True,
                        Expires = t0 - hour\<rparr>,
        WriteHeader 403,
        ExecuteTemplate ''sign_in.html'' (SignInData ''Google'' [] False ''/app'' ''1.0'')]"
proof -
  have a: "URL_Path (get_request ''/app'')
             \<notin> {robotsPath, pingPath, signInPath, oauthStartPath, oauthCallbackPath}"
    by (simp add: get_request_def robotsPath_def pingPath_def signInPath_def
        oauthStartPath_def oauthCallbackPath_def)
  have b: "\<not> skip_auth (compiledRegex example_proxy) (URL_Path (get_request ''/app''))"
    by (simp add: example_simps get_request_def HasPrefix_def)
  have c: "ProcessCookie example_proxy example_externals (get_request ''/app'') t0 t0
             = (([], [], [], False), [Printf ''http: named cookie not present'' []])"
    by (simp add: ProcessCookie_def example_simps get_request_def)
  have d: "CheckBasicAuth example_proxy example_externals (get_request ''/app'') = (([], False), [])"
    by (simp add: CheckBasicAuth_def example_proxy_def get_request_def Header_Get_def SplitN2_def)
  from ServeHTTP_denied [of "get_request ''/app''" example_proxy example_externals t0 t0
      "[]" "[]" "[]" "[Printf ''http: named cookie not present'' []]" "[]" "[]"] a b c d
  have "ServeHTTP example_proxy example_externals (get_request ''/app'') t0 t0
     = [Printf ''http: named cookie not present'' []] @
       ClearCookie example_proxy example_externals (get_request ''/app'') t0 @
       [WriteHeader 403,
        ExecuteTemplate ''sign_in.html''
          (SignInData (ProviderName (provider example_proxy)) (SignInMessage example_proxy)
             (displayCustomLoginForm example_proxy)
             (if RequestURI (get_request ''/app'') = signInPath then ''/''
              else RequestURI (get_request ''/app''))
             (VERSION example_externals))]"
    by simp
  then have e: "ServeHTTP example_proxy example_externals (get_request ''/app'') t0 t0
     = [Printf ''http: named cookie not present'' [],
        http_SetCookie \<lparr>Name = ''_oauthproxy'', Value = [], Cookie_Path = ''/'',
                        Domain = ''proxy.example.com'', HttpOnly = True, Secure = True,
                        Expires = t0 - hour\<rparr>,
        WriteHeader 403,
        ExecuteTemplate ''sign_in.html'' (SignInData ''Google'' [] False ''/app'' ''1.0'')]"
    by (simp add: ClearCookie_def MakeCookie_def displayCustomLoginForm_def example_proxy_def
        example_provider_def example_externals_def get_request_def signInPath_def Let_def)
  from a b c d e show ?thesis by simp
qed

end
